theory Spec2Isabelle
  imports Complex_Main
begin

section \<open>Numbers and optional fields of the source\<close>

text \<open>
  The engines are TypeScript. A \<^verbatim>\<open>number\<close> is modelled as a \<^typ>\<open>real\<close>: the
  arithmetic is exact, so the rounding of IEEE doubles is not represented, and neither are
  the values \<^verbatim>\<open>NaN\<close> and \<^verbatim>\<open>Infinity\<close>. A division by zero yields one of
  these in the source and \<open>0\<close> in HOL; every theorem below whose content depends on a quotient
  therefore states that the divisor is not zero.

  A field that may be missing from the parsed input object is an \<open>option\<close>: \<open>None\<close> is
  \<^verbatim>\<open>undefined\<close>. The three ways in which the source treats such a field are kept apart.
\<close>

text \<open>\<^verbatim>\<open>x || d\<close> on numbers: \<^verbatim>\<open>undefined\<close> and \<open>0\<close> are both falsy.\<close>

definition orElse :: "real option \<Rightarrow> real \<Rightarrow> real" where
  "orElse x d = (case x of None \<Rightarrow> d | Some v \<Rightarrow> if v = 0 then d else v)"

text \<open>The truth value of a number in a condition (\<^verbatim>\<open>if (x && ...)\<close>).\<close>

definition truthy :: "real option \<Rightarrow> bool" where
  "truthy x = (case x of None \<Rightarrow> False | Some v \<Rightarrow> v \<noteq> 0)"

text \<open>A destructuring default \<^verbatim>\<open>{ x = d }\<close> and \<^verbatim>\<open>x ?? d\<close>: only \<^verbatim>\<open>undefined\<close> is replaced.\<close>

definition withDefault :: "'a option \<Rightarrow> 'a \<Rightarrow> 'a" where
  "withDefault x d = (case x of None \<Rightarrow> d | Some v \<Rightarrow> v)"

text \<open>\<^verbatim>\<open>Math.round\<close>: the nearest integer, a half rounded up.\<close>

definition Math_round :: "real \<Rightarrow> real" where
  "Math_round x = of_int \<lfloor>x + 1 / 2\<rfloor>"

text \<open>
  \<^verbatim>\<open>[...xs].sort((a, b) => key(b) - key(a))\<close>: a stable sort, descending by the key.
  \<^const>\<open>sort_key\<close> is a stable insertion sort, ascending; the key is negated.
\<close>

definition sortDescending :: "('a \<Rightarrow> real) \<Rightarrow> 'a list \<Rightarrow> 'a list" where
  "sortDescending key xs = sort_key (\<lambda>x. - key x) xs"

text \<open>A number that the source may set to \<^verbatim>\<open>Infinity\<close> on purpose.\<close>

datatype multiple = Finite real | Infinity

section \<open>The pricing-matrix engine: data model\<close>

text \<open>
  The engine with the dollar-based raise, the debt input and the investor drop-off. Of the
  interface \<^verbatim>\<open>IPOAssumptions\<close> the record keeps every field that
  \<^verbatim>\<open>calculateIPOPricing\<close> reads; the interface field \<^verbatim>\<open>dualClassDiscount\<close> carries
  the name \<^verbatim>\<open>dualClassDiscountRate\<close> that the function gives it, since the pricing row has
  a field \<^verbatim>\<open>dualClassDiscount\<close> of its own.
\<close>

datatype PricingAggressiveness = conservative | moderate | aggressive | maximum

datatype ManagementPriority = valuation_maximization | runway_extension | deal_certainty

datatype SecondaryOptics = neutral | negative | positive

record OrderBookEntry =
  priceLevel :: real
  tierOversubscription :: real

record NotableOrder =
  investorName :: string
  indicatedSizeM :: real
  maxPrice :: "real option"

record GrowthRates =
  fy2024to2025Growth :: "real option"
  fy2025to2026Growth :: "real option"

record IPOAssumptions =
  sector :: string
  sharesOutstandingPreIPO :: real
  primarySharesOffered :: "real option"
  secondarySharesOffered :: "real option"
  greenshoeShares :: "real option"
  greenshoePercent :: "real option"
  primaryDollarRaiseM :: "real option"
  secondaryDollarRaiseM :: "real option"
  indicatedPriceRangeLow :: "real option"
  indicatedPriceRangeHigh :: "real option"
  currentCash :: "real option"
  currentDebt :: "real option"
  ntmRevenue :: real
  fairValuePerShare :: real
  totalRaNPV :: "real option"
  peerMedianEVRevenue :: real
  peerMedianEVRaNPV :: "real option"
  orderBook :: "OrderBookEntry list option"
  notableOrders :: "NotableOrder list option"
  historicalFirstDayPop :: "real option"
  sectorAverageFirstDayPop :: "real option"
  sectorMedianFirstDayPop :: "real option"
  foundersEmployeesOwnership :: real
  ceoGuidance :: "string option"
  pricingAggressiveness :: PricingAggressiveness
  managementPriority :: "ManagementPriority option"
  minAcceptablePrice :: "real option"
  hasBinaryCatalyst :: "bool option"
  monthsToCatalyst :: "real option"
  secondaryOptics :: "SecondaryOptics option"
  lastPrivateRoundPrice :: "real option"
  downRoundOptics :: "bool option"
  downRoundIpoPenalty :: "real option"
  dualClass :: "bool option"
  dualClassDiscountRate :: "real option"
  growthRates :: "GrowthRates option"
  customerConcentrationTop5 :: "real option"

text \<open>
  The label of the matched order-book tier and the row warnings are strings that the source
  builds from numbers (\<^verbatim>\<open>`$${priceLevel}+`\<close>, \<^verbatim>\<open>toFixed\<close>); each is a constructor
  carrying the number it prints.
\<close>

datatype TierLabel =
    NoTier
  | TierAtOrAbove real
  | AboveTier real
  | BelowTier real

datatype RowWarning =
    PriceAboveHighestTier
  | ValuationOfFairValue real
  | BookCoverage real
  | ImpliedPop real
  | DownRound real
  | InvestorDropOff "string list" real

record PricingRow =
  offerPrice :: real
  sharesSoldPrimary :: real
  sharesSoldSecondary :: real
  sharesSoldGreenshoe :: real
  totalSharesSold :: real
  fdSharesPostIPO :: real
  dilutionPercent :: real
  founderOwnershipPost :: real
  marketCapM :: real
  postIPOCashM :: real
  currentDebtM :: real
  enterpriseValueM :: real
  ntmEVRevenue :: multiple
  evRaNPV :: real
  growthAdjustedMultiple :: real
  vsPeerMedianRevenue :: multiple
  vsPeerMedianRaNPV :: real
  fairValueSupport :: real
  grossProceedsM :: real
  primaryProceedsM :: real
  secondaryProceedsM :: real
  oversubscription :: real
  effectiveOversubscription :: real
  orderBookTier :: TierLabel
  investorsDropping :: "string list"
  demandLostM :: real
  downRoundPercent :: real
  isDownRound :: bool
  downRoundDiscount :: real
  baseImpliedPop :: real
  bookQualityAdjustment :: real
  valuationPenalty :: real
  secondaryDiscount :: real
  catalystDiscount :: real
  dualClassDiscount :: real
  customerConcentrationDiscount :: real
  growthDecelPenalty :: real
  adjustedImpliedPop :: real
  rowWarnings :: "RowWarning list"

section \<open>The pricing-matrix engine: what is fixed before the rows\<close>

text \<open>
  \<^verbatim>\<open>calculateIPOPricing\<close> computes a few values once and then maps one function over the
  price points. Each local constant of the source is a definition of the same name here
  (with the suffix \<open>Of\<close> where the pricing row has a field of that name), as a function
  of the assumptions and, inside the row, of the offer price \<open>p\<close>.
\<close>

definition isPreRevenue :: "IPOAssumptions \<Rightarrow> bool" where
  "isPreRevenue a = (ntmRevenue a = 0 \<or> ntmRevenue a < 1)"

definition useDollarBased :: "IPOAssumptions \<Rightarrow> bool" where
  "useDollarBased a = (case primaryDollarRaiseM a of None \<Rightarrow> False | Some d \<Rightarrow> d > 0)"

text \<open>The pair \<^verbatim>\<open>(growthDecelPenalty, growthAdjustedPeerMultiple)\<close>.\<close>

definition growthAdjustment :: "IPOAssumptions \<Rightarrow> real \<times> real" where
  "growthAdjustment a =
     (case growthRates a of
        None \<Rightarrow> (0, peerMedianEVRevenue a)
      | Some g \<Rightarrow>
          (case (fy2024to2025Growth g, fy2025to2026Growth g) of
             (Some g1, Some g2) \<Rightarrow>
               if g1 \<noteq> 0 \<and> g2 \<noteq> 0 then
                 (let decelRate = 1 - g2 / g1
                  in if decelRate > 0
                     then (decelRate, peerMedianEVRevenue a * (1 - decelRate))
                     else (0, peerMedianEVRevenue a))
               else (0, peerMedianEVRevenue a)
           | _ \<Rightarrow> (0, peerMedianEVRevenue a)))"

definition growthDecelPenaltyOf :: "IPOAssumptions \<Rightarrow> real" where
  "growthDecelPenaltyOf a = fst (growthAdjustment a)"

definition growthAdjustedPeerMultiple :: "IPOAssumptions \<Rightarrow> real" where
  "growthAdjustedPeerMultiple a = snd (growthAdjustment a)"

text \<open>
  The loop \<^verbatim>\<open>for (let p = minPrice; p <= maxPrice; p += 1) if (p > 0) pricePoints.push(p)\<close>,
  started at \<open>p\<close>.
\<close>

function pricePointsFrom :: "real \<Rightarrow> real \<Rightarrow> real list" where
  "pricePointsFrom p hi =
     (if p \<le> hi
      then (if p > 0 then [p] else []) @ pricePointsFrom (p + 1) hi
      else [])"
  by pat_completeness auto
termination
  by (relation "measure (\<lambda>(p, hi). nat \<lceil>hi - p + 1\<rceil>)") (auto, linarith)

declare pricePointsFrom.simps [simp del]

definition sortedOrderBook :: "IPOAssumptions \<Rightarrow> OrderBookEntry list" where
  "sortedOrderBook a =
     (case orderBook a of None \<Rightarrow> [] | Some ob \<Rightarrow> sortDescending priceLevel ob)"

definition hasExplicitOrderBook :: "IPOAssumptions \<Rightarrow> bool" where
  "hasExplicitOrderBook a = (length (sortedOrderBook a) > 0)"

definition baseExpectedReturn :: "IPOAssumptions \<Rightarrow> real" where
  "baseExpectedReturn a =
     (case sectorMedianFirstDayPop a of
        Some v \<Rightarrow> v
      | None \<Rightarrow>
          (case sectorAverageFirstDayPop a of
             Some v \<Rightarrow> v
           | None \<Rightarrow> withDefault (historicalFirstDayPop a) 0))"

definition hasUserProvidedPopData :: "IPOAssumptions \<Rightarrow> bool" where
  "hasUserProvidedPopData a =
     (sectorMedianFirstDayPop a \<noteq> None \<or> sectorAverageFirstDayPop a \<noteq> None
      \<or> historicalFirstDayPop a \<noteq> None)"

section \<open>The pricing-matrix engine: one row\<close>

subsection \<open>Shares sold, dilution, proceeds, enterprise value\<close>

definition sharesSoldPrimaryOf :: "IPOAssumptions \<Rightarrow> real \<Rightarrow> real" where
  "sharesSoldPrimaryOf a p =
     (if useDollarBased a
      then withDefault (primaryDollarRaiseM a) 0 / p
      else orElse (primarySharesOffered a) 0)"

definition sharesSoldSecondaryOf :: "IPOAssumptions \<Rightarrow> real \<Rightarrow> real" where
  "sharesSoldSecondaryOf a p =
     (if useDollarBased a
      then orElse (secondaryDollarRaiseM a) 0 / p
      else orElse (secondarySharesOffered a) 0)"

definition sharesSoldGreenshoeOf :: "IPOAssumptions \<Rightarrow> real \<Rightarrow> real" where
  "sharesSoldGreenshoeOf a p =
     (if useDollarBased a
      then sharesSoldPrimaryOf a p * orElse (greenshoePercent a) 0
      else orElse (greenshoeShares a)
             (sharesSoldPrimaryOf a p * orElse (greenshoePercent a) 0))"

definition totalSharesSoldOf :: "IPOAssumptions \<Rightarrow> real \<Rightarrow> real" where
  "totalSharesSoldOf a p =
     sharesSoldPrimaryOf a p + sharesSoldSecondaryOf a p
       + sharesSoldGreenshoeOf a p"

definition dilutiveShares :: "IPOAssumptions \<Rightarrow> real \<Rightarrow> real" where
  "dilutiveShares a p =
     sharesSoldPrimaryOf a p + sharesSoldGreenshoeOf a p"

definition fdSharesPostIPOOf :: "IPOAssumptions \<Rightarrow> real \<Rightarrow> real" where
  "fdSharesPostIPOOf a p = sharesOutstandingPreIPO a + dilutiveShares a p"

definition dilutionPercentOf :: "IPOAssumptions \<Rightarrow> real \<Rightarrow> real" where
  "dilutionPercentOf a p = dilutiveShares a p / fdSharesPostIPOOf a p"

definition primaryProceedsMOf :: "IPOAssumptions \<Rightarrow> real \<Rightarrow> real" where
  "primaryProceedsMOf a p =
     p * (sharesSoldPrimaryOf a p + sharesSoldGreenshoeOf a p)"

definition secondaryProceedsMOf :: "IPOAssumptions \<Rightarrow> real \<Rightarrow> real" where
  "secondaryProceedsMOf a p = p * sharesSoldSecondaryOf a p"

definition grossProceedsMOf :: "IPOAssumptions \<Rightarrow> real \<Rightarrow> real" where
  "grossProceedsMOf a p =
     primaryProceedsMOf a p + secondaryProceedsMOf a p"

definition marketCapMOf :: "IPOAssumptions \<Rightarrow> real \<Rightarrow> real" where
  "marketCapMOf a p = fdSharesPostIPOOf a p * p"

definition postIPOCashMOf :: "IPOAssumptions \<Rightarrow> real \<Rightarrow> real" where
  "postIPOCashMOf a p = withDefault (currentCash a) 0 + primaryProceedsMOf a p"

definition currentDebtMOf :: "IPOAssumptions \<Rightarrow> real" where
  "currentDebtMOf a = withDefault (currentDebt a) 0"

definition enterpriseValueMOf :: "IPOAssumptions \<Rightarrow> real \<Rightarrow> real" where
  "enterpriseValueMOf a p =
     marketCapMOf a p + currentDebtMOf a - postIPOCashMOf a p"

subsection \<open>Valuation multiples and fair-value support\<close>

definition ntmEVRevenueOf :: "IPOAssumptions \<Rightarrow> real \<Rightarrow> multiple" where
  "ntmEVRevenueOf a p =
     (if isPreRevenue a then Infinity
      else Finite (Math_round ((enterpriseValueMOf a p / ntmRevenue a) * 10) / 10))"

definition evRaNPVOf :: "IPOAssumptions \<Rightarrow> real \<Rightarrow> real" where
  "evRaNPVOf a p =
     (if withDefault (totalRaNPV a) 0 > 0
      then Math_round ((enterpriseValueMOf a p / withDefault (totalRaNPV a) 0) * 100) / 100
      else 0)"

definition vsPeerMedianRevenueOf :: "IPOAssumptions \<Rightarrow> real \<Rightarrow> multiple" where
  "vsPeerMedianRevenueOf a p =
     (case ntmEVRevenueOf a p of
        Infinity \<Rightarrow> Infinity
      | Finite m \<Rightarrow>
          Finite (Math_round (((m - growthAdjustedPeerMultiple a) / growthAdjustedPeerMultiple a)
                    * 1000) / 1000))"

definition vsPeerMedianRaNPVOf :: "IPOAssumptions \<Rightarrow> real \<Rightarrow> real" where
  "vsPeerMedianRaNPVOf a p =
     (if withDefault (totalRaNPV a) 0 > 0 \<and> withDefault (peerMedianEVRaNPV a) 0 > 0
      then Math_round (((evRaNPVOf a p - withDefault (peerMedianEVRaNPV a) 0)
                          / withDefault (peerMedianEVRaNPV a) 0) * 1000) / 1000
      else 0)"

definition fairValueSupportOf :: "IPOAssumptions \<Rightarrow> real \<Rightarrow> real" where
  "fairValueSupportOf a p =
     Math_round ((p / fairValuePerShare a) * 1000) / 1000"

subsection \<open>Order-book lookup and investor drop-off\<close>

text \<open>
  The lookup returns the oversubscription, the tier label and the warning it pushes. The
  branch for a price above every tier is kept as the source has it, after the search.
\<close>

definition orderBookLookup ::
  "OrderBookEntry list \<Rightarrow> real \<Rightarrow> real \<times> TierLabel \<times> RowWarning list" where
  "orderBookLookup book p =
     (case book of
        [] \<Rightarrow> (1, NoTier, [])
      | highest # rest \<Rightarrow>
          (case find (\<lambda>entry. p \<ge> priceLevel entry) book of
             Some matchedTier \<Rightarrow>
               (tierOversubscription matchedTier, TierAtOrAbove (priceLevel matchedTier), [])
           | None \<Rightarrow>
               if p > priceLevel highest
               then (tierOversubscription highest, AboveTier (priceLevel highest),
                     [PriceAboveHighestTier])
               else (let lowestTier = last book
                     in (tierOversubscription lowestTier, BelowTier (priceLevel lowestTier), []))))"

definition oversubscriptionOf :: "IPOAssumptions \<Rightarrow> real \<Rightarrow> real" where
  "oversubscriptionOf a p = fst (orderBookLookup (sortedOrderBook a) p)"

definition orderBookTierOf :: "IPOAssumptions \<Rightarrow> real \<Rightarrow> TierLabel" where
  "orderBookTierOf a p = fst (snd (orderBookLookup (sortedOrderBook a) p))"

text \<open>
  The loop over the notable orders, with its two accumulators
  \<^verbatim>\<open>(investorsDropping, demandLostM)\<close>. The test \<^verbatim>\<open>investor.maxPrice && ...\<close> is false
  for a missing maximum price and for a maximum price of \<open>0\<close>.
\<close>

definition dropsAt :: "real \<Rightarrow> NotableOrder \<Rightarrow> bool" where
  "dropsAt p investor =
     (case maxPrice investor of None \<Rightarrow> False | Some m \<Rightarrow> m \<noteq> 0 \<and> p > m)"

fun dropOffLoop ::
  "real \<Rightarrow> NotableOrder list \<Rightarrow> string list \<times> real \<Rightarrow> string list \<times> real" where
  "dropOffLoop p [] acc = acc"
| "dropOffLoop p (investor # rest) (names, lost) =
     (if dropsAt p investor
      then dropOffLoop p rest (names @ [investorName investor], lost + indicatedSizeM investor)
      else dropOffLoop p rest (names, lost))"

definition investorsDroppingOf :: "IPOAssumptions \<Rightarrow> real \<Rightarrow> string list" where
  "investorsDroppingOf a p = fst (dropOffLoop p (withDefault (notableOrders a) []) ([], 0))"

definition demandLostMOf :: "IPOAssumptions \<Rightarrow> real \<Rightarrow> real" where
  "demandLostMOf a p = snd (dropOffLoop p (withDefault (notableOrders a) []) ([], 0))"

definition effectiveOversubscriptionOf :: "IPOAssumptions \<Rightarrow> real \<Rightarrow> real" where
  "effectiveOversubscriptionOf a p =
     (if demandLostMOf a p > 0 \<and> grossProceedsMOf a p > 0
      then (let demandLostRatio = demandLostMOf a p / (grossProceedsMOf a p * oversubscriptionOf a p)
            in oversubscriptionOf a p * (1 - demandLostRatio))
      else oversubscriptionOf a p)"

subsection \<open>Down-round detection\<close>

definition hasLastPrivateRound :: "IPOAssumptions \<Rightarrow> bool" where
  "hasLastPrivateRound a =
     (case lastPrivateRoundPrice a of None \<Rightarrow> False | Some l \<Rightarrow> l \<noteq> 0 \<and> l > 0)"

definition downRoundPercentOf :: "IPOAssumptions \<Rightarrow> real \<Rightarrow> real" where
  "downRoundPercentOf a p =
     (if hasLastPrivateRound a
      then (p - withDefault (lastPrivateRoundPrice a) 0) / withDefault (lastPrivateRoundPrice a) 0
      else 0)"

definition isDownRoundOf :: "IPOAssumptions \<Rightarrow> real \<Rightarrow> bool" where
  "isDownRoundOf a p = (hasLastPrivateRound a \<and> downRoundPercentOf a p < 0)"

definition downRoundDiscountOf :: "IPOAssumptions \<Rightarrow> real \<Rightarrow> real" where
  "downRoundDiscountOf a p =
     (if hasLastPrivateRound a \<and> isDownRoundOf a p \<and> withDefault (downRoundOptics a) False
      then \<bar>downRoundPercentOf a p\<bar> * orElse (downRoundIpoPenalty a) 0
      else 0)"

subsection \<open>Implied first-day return\<close>

definition baseImpliedPopOf :: "IPOAssumptions \<Rightarrow> real" where
  "baseImpliedPopOf a = (if hasUserProvidedPopData a then baseExpectedReturn a else 0)"

definition bookQualityAdjustmentOf :: "IPOAssumptions \<Rightarrow> real \<Rightarrow> real" where
  "bookQualityAdjustmentOf a p =
     (if hasUserProvidedPopData a
      then (if hasExplicitOrderBook a \<and> effectiveOversubscriptionOf a p > 0
               \<and> effectiveOversubscriptionOf a p \<noteq> 1
            then ln (effectiveOversubscriptionOf a p)
            else 0)
      else 0)"

definition valuationPenaltyOf :: "IPOAssumptions \<Rightarrow> real \<Rightarrow> real" where
  "valuationPenaltyOf a p =
     (if hasUserProvidedPopData a
      then (if fairValueSupportOf a p > 1 then - (fairValueSupportOf a p - 1) else 0)
      else 0)"

definition secondaryDiscountOf :: "IPOAssumptions \<Rightarrow> real \<Rightarrow> real" where
  "secondaryDiscountOf a p =
     (if hasUserProvidedPopData a
      then (if sharesSoldSecondaryOf a p > 0 \<and> totalSharesSoldOf a p > 0
            then (let secondaryPct = sharesSoldSecondaryOf a p / totalSharesSoldOf a p
                  in if withDefault (secondaryOptics a) neutral = negative then secondaryPct else 0)
            else 0)
      else 0)"

definition catalystDiscountOf :: "IPOAssumptions \<Rightarrow> real" where
  "catalystDiscountOf a =
     (if hasUserProvidedPopData a
      then (case monthsToCatalyst a of
              None \<Rightarrow> 0
            | Some months \<Rightarrow>
                if withDefault (hasBinaryCatalyst a) False \<and> months > 0 then 1 / months else 0)
      else 0)"

definition dualClassDiscountOf :: "IPOAssumptions \<Rightarrow> real" where
  "dualClassDiscountOf a =
     (if withDefault (dualClass a) False then withDefault (dualClassDiscountRate a) 0 else 0)"

definition customerConcentrationDiscountOf :: "IPOAssumptions \<Rightarrow> real" where
  "customerConcentrationDiscountOf a =
     (if withDefault (customerConcentrationTop5 a) 0 > 0.40
      then withDefault (customerConcentrationTop5 a) 0 - 0.40
      else 0)"

definition adjustedImpliedPopOf :: "IPOAssumptions \<Rightarrow> real \<Rightarrow> real" where
  "adjustedImpliedPopOf a p =
     (if hasUserProvidedPopData a
      then baseImpliedPopOf a
           + bookQualityAdjustmentOf a p
           + valuationPenaltyOf a p
           - secondaryDiscountOf a p
           - catalystDiscountOf a
           - downRoundDiscountOf a p
           - dualClassDiscountOf a
           - customerConcentrationDiscountOf a
      else 0)"

definition founderOwnershipPostOf :: "IPOAssumptions \<Rightarrow> real \<Rightarrow> real" where
  "founderOwnershipPostOf a p =
     (let founderSharesFixed = foundersEmployeesOwnership a * sharesOutstandingPreIPO a
      in founderSharesFixed / fdSharesPostIPOOf a p)"

subsection \<open>The warnings of a row, and the row\<close>

definition rowWarningsOf :: "IPOAssumptions \<Rightarrow> real \<Rightarrow> RowWarning list" where
  "rowWarningsOf a p =
     snd (snd (orderBookLookup (sortedOrderBook a) p))
     @ (if fairValueSupportOf a p > 1 then [ValuationOfFairValue (fairValueSupportOf a p)] else [])
     @ (if hasExplicitOrderBook a \<and> effectiveOversubscriptionOf a p > 0
        then [BookCoverage (effectiveOversubscriptionOf a p)] else [])
     @ (if baseImpliedPopOf a \<noteq> 0 then [ImpliedPop (adjustedImpliedPopOf a p)] else [])
     @ (if isDownRoundOf a p then [DownRound (downRoundPercentOf a p)] else [])
     @ (if length (investorsDroppingOf a p) > 0
        then [InvestorDropOff (investorsDroppingOf a p) (demandLostMOf a p)] else [])"

definition pricingRow :: "IPOAssumptions \<Rightarrow> real \<Rightarrow> PricingRow" where
  "pricingRow a p =
     \<lparr> offerPrice = p,
       sharesSoldPrimary = sharesSoldPrimaryOf a p,
       sharesSoldSecondary = sharesSoldSecondaryOf a p,
       sharesSoldGreenshoe = sharesSoldGreenshoeOf a p,
       totalSharesSold = totalSharesSoldOf a p,
       fdSharesPostIPO = fdSharesPostIPOOf a p,
       dilutionPercent = dilutionPercentOf a p,
       founderOwnershipPost = founderOwnershipPostOf a p,
       marketCapM = marketCapMOf a p,
       postIPOCashM = postIPOCashMOf a p,
       currentDebtM = currentDebtMOf a,
       enterpriseValueM = enterpriseValueMOf a p,
       ntmEVRevenue = ntmEVRevenueOf a p,
       evRaNPV = evRaNPVOf a p,
       growthAdjustedMultiple = growthAdjustedPeerMultiple a,
       vsPeerMedianRevenue = vsPeerMedianRevenueOf a p,
       vsPeerMedianRaNPV = vsPeerMedianRaNPVOf a p,
       fairValueSupport = fairValueSupportOf a p,
       grossProceedsM = grossProceedsMOf a p,
       primaryProceedsM = primaryProceedsMOf a p,
       secondaryProceedsM = secondaryProceedsMOf a p,
       oversubscription = oversubscriptionOf a p,
       effectiveOversubscription = effectiveOversubscriptionOf a p,
       orderBookTier = orderBookTierOf a p,
       investorsDropping = investorsDroppingOf a p,
       demandLostM = demandLostMOf a p,
       downRoundPercent = downRoundPercentOf a p,
       isDownRound = isDownRoundOf a p,
       downRoundDiscount = downRoundDiscountOf a p,
       baseImpliedPop = baseImpliedPopOf a,
       bookQualityAdjustment = bookQualityAdjustmentOf a p,
       valuationPenalty = valuationPenaltyOf a p,
       secondaryDiscount = secondaryDiscountOf a p,
       catalystDiscount = catalystDiscountOf a,
       dualClassDiscount = dualClassDiscountOf a,
       customerConcentrationDiscount = customerConcentrationDiscountOf a,
       growthDecelPenalty = growthDecelPenaltyOf a,
       adjustedImpliedPop = adjustedImpliedPopOf a p,
       rowWarnings = rowWarningsOf a p \<rparr>"

section \<open>The pricing-matrix engine: the result\<close>

text \<open>
  Of the returned object the model keeps the matrix, the recommended range and price and the
  warnings; \<^verbatim>\<open>rationale\<close> and \<^verbatim>\<open>memoText\<close> are display text formatted from these and are
  left out. A warning with a fixed text is that text; one that prints numbers is a
  constructor over the numbers.
\<close>

datatype Warning =
    Message string
  | DownRoundAlert real real real
  | DualClassDiscountApplied real
  | CustomerConcentrationRisk real
  | GrowthDecelerationPenalty real
  | CeoDirectiveContradiction real real
  | RowNote RowWarning

record PricingResult =
  pricingMatrix :: "PricingRow list"
  recommendedRangeLow :: real
  recommendedRangeHigh :: real
  recommendedPrice :: real
  warnings :: "Warning list"

text \<open>
  Reading a property of \<^verbatim>\<open>undefined\<close> throws; the only place where the function can do so
  is the selection of the recommended row from an empty matrix.
\<close>

datatype Exception = TypeError

definition rangeRequiredError :: string where
  "rangeRequiredError =
     ''ERROR: Price range (indicatedPriceRangeLow/High) is REQUIRED - cannot price without user-provided range. Please provide both indicatedPriceRangeLow and indicatedPriceRangeHigh.''"

definition rangeInvertedError :: string where
  "rangeInvertedError =
     ''ERROR: indicatedPriceRangeHigh must be greater than indicatedPriceRangeLow.''"

definition errorResult :: "string \<Rightarrow> PricingResult" where
  "errorResult errorWarning =
     \<lparr> pricingMatrix = [],
       recommendedRangeLow = 0,
       recommendedRangeHigh = 0,
       recommendedPrice = 0,
       warnings = [Message errorWarning] \<rparr>"

subsection \<open>Strings of the CEO guidance\<close>

definition lowerChar :: "char \<Rightarrow> char" where
  "lowerChar c =
     (let n = (of_char c :: nat) in if 65 \<le> n \<and> n \<le> 90 then char_of (n + 32) else c)"

definition toLowerCase :: "string \<Rightarrow> string" where
  "toLowerCase s = map lowerChar s"

fun startsWith :: "string \<Rightarrow> string \<Rightarrow> bool" where
  "startsWith s [] = True"
| "startsWith [] (c # cs) = False"
| "startsWith (d # ds) (c # cs) = (d = c \<and> startsWith ds cs)"

fun includesText :: "string \<Rightarrow> string \<Rightarrow> bool" where
  "includesText [] sub = (sub = [])"
| "includesText (d # ds) sub = (startsWith (d # ds) sub \<or> includesText ds sub)"

subsection \<open>Selection of the recommended row\<close>

definition findRow :: "PricingRow list \<Rightarrow> real \<Rightarrow> PricingRow option" where
  "findRow matrix price = find (\<lambda>r. offerPrice r = price) matrix"

text \<open>The function given to \<^verbatim>\<open>reduce\<close> in the default branch.\<close>

definition closerTo :: "real \<Rightarrow> PricingRow \<Rightarrow> PricingRow \<Rightarrow> PricingRow" where
  "closerTo rangeMidpoint closest row =
     (if \<bar>offerPrice row - rangeMidpoint\<bar> < \<bar>offerPrice closest - rangeMidpoint\<bar>
      then row else closest)"

text \<open>
  The four branches on the management priority and the pricing aggressiveness. With an
  empty matrix every branch reads \<^verbatim>\<open>offerPrice\<close> of \<^verbatim>\<open>undefined\<close> (or reduces an empty
  array) and throws; with a row in the matrix every branch ends with a row, so that the
  later test \<^verbatim>\<open>if (!recommendedRow)\<close> never fires.
\<close>

definition selectRow ::
  "IPOAssumptions \<Rightarrow> real \<Rightarrow> real \<Rightarrow> PricingRow list \<Rightarrow> Exception + real \<times> PricingRow" where
  "selectRow a low high matrix =
     (case sortDescending offerPrice matrix of
        [] \<Rightarrow> Inl TypeError
      | highestRow # others \<Rightarrow>
          (let rangeMidpoint = (low + high) / 2;
               lowestRow = last (highestRow # others)
           in if managementPriority a = Some runway_extension then
                (let price = orElse (minAcceptablePrice a) low
                 in case findRow matrix price of
                      Some row \<Rightarrow> Inr (price, row)
                    | None \<Rightarrow> Inr (offerPrice lowestRow, lowestRow))
              else if pricingAggressiveness a = maximum then
                (case findRow matrix high of
                   Some row \<Rightarrow> Inr (high, row)
                 | None \<Rightarrow> Inr (offerPrice highestRow, highestRow))
              else if pricingAggressiveness a = conservative then
                (case findRow matrix low of
                   Some row \<Rightarrow> Inr (low, row)
                 | None \<Rightarrow> Inr (offerPrice lowestRow, lowestRow))
              else
                (let price = Math_round rangeMidpoint
                 in case findRow matrix price of
                      Some row \<Rightarrow> Inr (price, row)
                    | None \<Rightarrow>
                        (let row = foldl (closerTo rangeMidpoint) highestRow others
                         in Inr (offerPrice row, row)))))"

definition respectMinimum ::
  "IPOAssumptions \<Rightarrow> PricingRow list \<Rightarrow> real \<times> PricingRow \<Rightarrow> real \<times> PricingRow" where
  "respectMinimum a matrix selected =
     (case selected of
        (price, row) \<Rightarrow>
          (case minAcceptablePrice a of
             None \<Rightarrow> (price, row)
           | Some m \<Rightarrow>
               if m \<noteq> 0 \<and> price < m
               then (m, case findRow matrix m of Some r \<Rightarrow> r | None \<Rightarrow> row)
               else (price, row)))"

definition ceoDirectiveContradicted :: "IPOAssumptions \<Rightarrow> real \<Rightarrow> bool" where
  "ceoDirectiveContradicted a price =
     (truthy (lastPrivateRoundPrice a) \<and> truthy (minAcceptablePrice a)
      \<and> (case ceoGuidance a of
            None \<Rightarrow> False
          | Some guidance \<Rightarrow>
              guidance \<noteq> []
              \<and> (let ceoLower = toLowerCase guidance
                 in includesText ceoLower ''narrative'' \<or> includesText ceoLower ''control''
                    \<or> includesText ceoLower ''down round''))
      \<and> price < withDefault (lastPrivateRoundPrice a) 0)"

definition resultWarnings :: "IPOAssumptions \<Rightarrow> real \<Rightarrow> PricingRow \<Rightarrow> Warning list" where
  "resultWarnings a price row =
     (if managementPriority a = Some runway_extension
      then [Message ''CEO priority: runway extension - recommending lower price for deal certainty'']
      else [])
     @ (if isDownRound row \<and> truthy (lastPrivateRoundPrice a)
        then [DownRoundAlert price \<bar>downRoundPercent row\<bar> (withDefault (lastPrivateRoundPrice a) 0)]
        else [])
     @ (if withDefault (dualClass a) False
        then [DualClassDiscountApplied (withDefault (dualClassDiscountRate a) 0)] else [])
     @ (if withDefault (customerConcentrationTop5 a) 0 > 0.40
        then [CustomerConcentrationRisk (withDefault (customerConcentrationTop5 a) 0)] else [])
     @ (if growthDecelPenaltyOf a > 0 then [GrowthDecelerationPenalty (growthDecelPenaltyOf a)] else [])
     @ (if ceoDirectiveContradicted a price
        then [CeoDirectiveContradiction price (withDefault (lastPrivateRoundPrice a) 0)] else [])
     @ map RowNote (rowWarnings row)"

subsection \<open>The function\<close>

definition pricingMatrixOf :: "IPOAssumptions \<Rightarrow> real \<Rightarrow> real \<Rightarrow> PricingRow list" where
  "pricingMatrixOf a minPrice hi = map (pricingRow a) (pricePointsFrom minPrice hi)"

text \<open>
  \<^verbatim>\<open>calculateIPOPricing\<close>: the two short-circuit returns on the price range, then the matrix
  and the recommendation.
\<close>

definition calculateIPOPricing :: "IPOAssumptions \<Rightarrow> Exception + PricingResult" where
  "calculateIPOPricing a =
     (case (indicatedPriceRangeLow a, indicatedPriceRangeHigh a) of
        (Some low, Some high) \<Rightarrow>
          if \<not> (low > 0 \<and> high > 0) then Inr (errorResult rangeRequiredError)
          else if high \<le> low then Inr (errorResult rangeInvertedError)
          else
            (let matrix = pricingMatrixOf a low high
             in case selectRow a low high matrix of
                  Inl e \<Rightarrow> Inl e
                | Inr selected \<Rightarrow>
                    (case respectMinimum a matrix selected of
                       (price, row) \<Rightarrow>
                         Inr \<lparr> pricingMatrix = matrix,
                               recommendedRangeLow = low,
                               recommendedRangeHigh = high,
                               recommendedPrice = price,
                               warnings = resultWarnings a price row \<rparr>))
      | _ \<Rightarrow> Inr (errorResult rangeRequiredError))"

section \<open>The earlier copies of the pricing-matrix engine\<close>

text \<open>
  The repository holds two earlier copies of \<^verbatim>\<open>calculateIPOPricing\<close>: the one of
  \<^verbatim>\<open>server/services/ipoPricingService.ts\<close> (prefix \<open>service\<close> here) and an older one
  without a cash input (prefix \<open>original\<close>). Of each the model has the statements that
  compute the enterprise value, the oversubscription and the book-quality term of a row, as
  functions of the values these statements read. Neither copy has a debt input.
\<close>

subsection \<open>The service copy\<close>

text \<open>\<^verbatim>\<open>greenshoeShares || (primarySharesOffered * greenshoePercent)\<close>\<close>

definition serviceActualGreenshoeShares :: "real option \<Rightarrow> real \<Rightarrow> real \<Rightarrow> real" where
  "serviceActualGreenshoeShares greenshoe primaryShares greenshoePct =
     orElse greenshoe (primaryShares * greenshoePct)"

definition serviceFdSharesPostIPO :: "real \<Rightarrow> real \<Rightarrow> real \<Rightarrow> real" where
  "serviceFdSharesPostIPO sharesOutstanding primaryShares actualGreenshoe =
     sharesOutstanding + primaryShares + actualGreenshoe"

definition serviceMarketCapM :: "real \<Rightarrow> real \<Rightarrow> real" where
  "serviceMarketCapM fdShares p = fdShares * p"

definition servicePostIPOCashM :: "real \<Rightarrow> real \<Rightarrow> real \<Rightarrow> real \<Rightarrow> real" where
  "servicePostIPOCashM cash primaryShares actualGreenshoe p =
     (let primaryProceeds = p * (primaryShares + actualGreenshoe) in cash + primaryProceeds)"

text \<open>\<^verbatim>\<open>const enterpriseValueM = marketCapM - postIPOCashM\<close>\<close>

definition serviceEnterpriseValueM :: "real \<Rightarrow> real \<Rightarrow> real \<Rightarrow> real \<Rightarrow> real \<Rightarrow> real" where
  "serviceEnterpriseValueM sharesOutstanding primaryShares actualGreenshoe cash p =
     serviceMarketCapM (serviceFdSharesPostIPO sharesOutstanding primaryShares actualGreenshoe) p
       - servicePostIPOCashM cash primaryShares actualGreenshoe p"

text \<open>
  The price grid of the service copy: a missing end of the range is replaced by 15 or 30,
  and the grid is widened by 3 on each side of the order book.
\<close>

definition servicePriceRange ::
  "real option \<Rightarrow> real option \<Rightarrow> OrderBookEntry list option \<Rightarrow> real \<times> real" where
  "servicePriceRange rangeLow rangeHigh book =
     (let minPrice = orElse rangeLow 15;
          hi = orElse rangeHigh 30
      in case book of
           Some (entry # entries) \<Rightarrow>
             (fold min (map priceLevel (entry # entries)) minPrice - 3,
              fold max (map priceLevel (entry # entries)) hi + 3)
         | _ \<Rightarrow> (minPrice, hi))"

definition servicePricePoints ::
  "real option \<Rightarrow> real option \<Rightarrow> OrderBookEntry list option \<Rightarrow> real list" where
  "servicePricePoints rangeLow rangeHigh book =
     (case servicePriceRange rangeLow rangeHigh book of
        (minPrice, hi) \<Rightarrow> pricePointsFrom minPrice hi)"

text \<open>
  The lookup of the service copy, on the order book sorted descending. The loop with
  \<^verbatim>\<open>break\<close> is the search for the first tier at or below the price; the value \<open>1\<close> then
  serves as the mark of "nothing found", and the branch that follows scales the lowest
  tier's value by the distance of the price below it and rounds.
\<close>

definition serviceOversubscription :: "OrderBookEntry list \<Rightarrow> real \<Rightarrow> real" where
  "serviceOversubscription book p =
     (case book of
        [] \<Rightarrow> 1
      | _ \<Rightarrow>
          (let found = (case find (\<lambda>entry. p \<ge> priceLevel entry) book of
                          None \<Rightarrow> 1
                        | Some entry \<Rightarrow> tierOversubscription entry)
           in if found = 1
              then (let lowestEntry = last book;
                        priceDiff = priceLevel lowestEntry - p
                    in Math_round (tierOversubscription lowestEntry * (1 + priceDiff * 0.05)))
              else found))"

text \<open>The book-quality term of the service copy: three per cent per turn under 5, a capped bonus above 20.\<close>

definition serviceBookQualityAdjustment :: "real \<Rightarrow> real" where
  "serviceBookQualityAdjustment os =
     (if os < 5 then (5 - os) * - 0.03
      else if os > 20 then min 0.10 ((os - 20) * 0.005)
      else 0)"

subsection \<open>The original copy\<close>

text \<open>
  \<^verbatim>\<open>const marketCap = fdSharesPostIPO * offerPrice; const enterpriseValue = marketCap;\<close>
  with \<^verbatim>\<open>fdSharesPostIPO = sharesOutstandingPreIPO + primarySharesOffered + greenshoeShares\<close>
  and \<^verbatim>\<open>greenshoeShares = primarySharesOffered * greenshoePercent\<close>.
\<close>

definition originalMarketCap :: "real \<Rightarrow> real \<Rightarrow> real \<Rightarrow> real \<Rightarrow> real" where
  "originalMarketCap sharesOutstanding primaryShares greenshoePct p =
     (let greenshoe = primaryShares * greenshoePct;
          fdShares = sharesOutstanding + primaryShares + greenshoe
      in fdShares * p)"

definition originalEnterpriseValue :: "real \<Rightarrow> real \<Rightarrow> real \<Rightarrow> real \<Rightarrow> real" where
  "originalEnterpriseValue sharesOutstanding primaryShares greenshoePct p =
     originalMarketCap sharesOutstanding primaryShares greenshoePct p"

section \<open>The engine with the valuation step: data model\<close>

text \<open>
  The second engine values the company first (a discounted cash flow, a revenue multiple or
  a risk-adjusted NPV of the pipeline, by company type) and then derives the offer price,
  the share mechanics, the ownership table and three pricing scenarios. Its function is
  also called \<^verbatim>\<open>calculateIPOPricing\<close>; names that it shares with the pricing-matrix
  engine, or that two of its own objects share, carry a distinguishing suffix or prefix
  here. The records keep the fields that the function reads.

  The projection horizon \<^verbatim>\<open>projectionYears\<close> is a count of loop iterations and is a
  \<^typ>\<open>nat\<close>; the launch year of a pipeline asset is an \<^typ>\<open>int\<close>.
\<close>

datatype CompanyType = mature | high_growth | biotech | industrial

datatype HolderType = founder | investor | option_pool | management | other

record Shareholder =
  holderName :: string
  shares :: real
  holderType :: HolderType
  votingMultiple :: "real option"
  secondarySalePercent :: "real option"

record ComparableCompany =
  evRevenue :: "real option"
  evEbitda :: "real option"

record PipelineAsset =
  probabilityOfSuccess :: real
  peakSales :: real
  launchYear :: int

record PreIPOShares =
  total :: real
  breakdown :: "Shareholder list"

record ValuationAssumptions =
  companyType :: CompanyType
  preIPOShares :: PreIPOShares
  currentRevenue :: real
  revenueGrowthRates :: "real list"
  currentEBITDA :: real
  ebitdaMargin :: real
  targetEbitdaMargin :: real
  currentCashV :: real
  currentDebtV :: real
  taxRate :: real
  wacc :: real
  terminalGrowthRate :: real
  primaryRaiseAmount :: real
  secondarySaleShares :: real
  greenshoePercentV :: real
  debtRepaymentAmount :: "real option"
  comparables :: "ComparableCompany list"
  dualClassShares :: bool
  founderControlMinimum :: "real option"
  pipelineAssets :: "PipelineAsset list option"
  ipoDiscountPercent :: real
  projectionYears :: nat

record OwnershipEntry =
  entryName :: string
  entryPreIPOShares :: real
  preIPOPercent :: real
  postIPOShares :: real
  postIPOPercent :: real
  votingPercent :: real

datatype ScenarioName = Low | Mid | High

record Scenario =
  scenario :: ScenarioName
  scenarioOfferPrice :: real
  primaryShares :: real
  scenarioMarketCap :: real
  scenarioEnterpriseValue :: real
  scenarioEvRevenue :: real
  scenarioEvEbitda :: "real option"
  dilution :: real
  founderOwnership :: real
  expectedDayOnePop :: real

record PriceRange =
  low :: real
  mid :: real
  high :: real

text \<open>The warnings and the recommendation print numbers; each is a constructor over them.\<close>

datatype ValuationWarning =
    LimitedPipelineData
  | FounderOwnershipBelowMinimum real real
  | OwnershipSumNot100 real
  | DilutionInvalid real
  | OfferPriceNotBelowFairValue real real
  | HighDilution real
  | NotYetProfitable

datatype Recommendation =
    PriceHigher real real
  | PriceCarefully real real
  | PriceAtMidPoint real real

record ValuationResult =
  companyTypeOut :: CompanyType
  valuationMethodology :: string
  enterpriseValue :: real
  equityValue :: real
  fairValuePerShareV :: real
  preIPOSharesTotal :: real
  primarySharesIssued :: real
  secondarySharesSold :: real
  greenshoeSharesV :: real
  postIPOSharesTotal :: real
  publicFloat :: real
  priceRange :: PriceRange
  recommendedOfferPrice :: real
  grossPrimaryProceeds :: real
  netPrimaryProceeds :: real
  secondaryProceeds :: real
  greenshoeProceeds :: real
  totalOfferingSize :: real
  postIPOCash :: real
  postIPODebt :: real
  postIPOEnterpriseValue :: real
  marketCap :: real
  impliedPreIPOValuation :: real
  dilutionPercentV :: real
  ownershipTable :: "OwnershipEntry list"
  impliedEVRevenue :: real
  impliedEVEBITDA :: "real option"
  comparableMedianEVRevenue :: real
  comparableMedianEVEBITDA :: "real option"
  pricingMatrixV :: "Scenario list"
  warningsV :: "ValuationWarning list"
  recommendation :: Recommendation

section \<open>The engine with the valuation step: enterprise value\<close>

text \<open>Reading an array at an index: \<^verbatim>\<open>undefined\<close> past the end and at index \<open>-1\<close>.\<close>

definition elementAt :: "real list \<Rightarrow> nat \<Rightarrow> real option" where
  "elementAt xs i = (if i < length xs then Some (xs ! i) else None)"

definition atLast :: "real list \<Rightarrow> real option" where
  "atLast xs = (case xs of [] \<Rightarrow> None | _ \<Rightarrow> Some (last xs))"

text \<open>
  \<^verbatim>\<open>revenueGrowthRates[i] || revenueGrowthRates[revenueGrowthRates.length - 1] || d\<close>
\<close>

definition growthRateAt :: "real list \<Rightarrow> nat \<Rightarrow> real \<Rightarrow> real" where
  "growthRateAt rates i d = orElse (elementAt rates i) (orElse (atLast rates) d)"

text \<open>
  The projection loop of the mature and industrial branch, at iteration \<open>i\<close> with \<open>k\<close>
  iterations left; it returns the cash flows it pushes.
\<close>

fun projectFCF ::
  "ValuationAssumptions \<Rightarrow> real \<Rightarrow> nat \<Rightarrow> nat \<Rightarrow> real \<Rightarrow> real \<Rightarrow> real list" where
  "projectFCF a marginStep i 0 projectedRevenue projectedMargin = []"
| "projectFCF a marginStep i (Suc k) projectedRevenue projectedMargin =
     (let growthRate = growthRateAt (revenueGrowthRates a) i 0.05;
          projectedRevenue' = projectedRevenue * (1 + growthRate);
          projectedMargin' = min (projectedMargin + marginStep) (targetEbitdaMargin a);
          ebitda = projectedRevenue' * projectedMargin';
          da = projectedRevenue' * 0.04;
          capex = projectedRevenue' * 0.05;
          nwcChange = projectedRevenue' * growthRate * 0.10;
          fcf = (ebitda - da) * (1 - taxRate a) + da - capex - nwcChange
      in fcf # projectFCF a marginStep (Suc i) k projectedRevenue' projectedMargin')"

text \<open>The projection loop of the high-growth branch: no cap on the margin, cash flow floored at 0.\<close>

fun projectFCFHighGrowth ::
  "ValuationAssumptions \<Rightarrow> real \<Rightarrow> nat \<Rightarrow> nat \<Rightarrow> real \<Rightarrow> real \<Rightarrow> real list" where
  "projectFCFHighGrowth a marginStep i 0 projectedRevenue projectedMargin = []"
| "projectFCFHighGrowth a marginStep i (Suc k) projectedRevenue projectedMargin =
     (let growthRate = growthRateAt (revenueGrowthRates a) i 0.20;
          projectedRevenue' = projectedRevenue * (1 + growthRate);
          projectedMargin' = projectedMargin + marginStep;
          ebitda = projectedRevenue' * projectedMargin';
          da = projectedRevenue' * 0.03;
          capex = projectedRevenue' * 0.04;
          nwcChange = projectedRevenue' * growthRate * 0.08;
          fcf = max 0 ((ebitda - da) * (1 - taxRate a) + da - capex - nwcChange)
      in fcf # projectFCFHighGrowth a marginStep (Suc i) k projectedRevenue' projectedMargin')"

definition marginStepOf :: "ValuationAssumptions \<Rightarrow> real" where
  "marginStepOf a = (targetEbitdaMargin a - ebitdaMargin a) / real (projectionYears a)"

definition projectedFCF :: "ValuationAssumptions \<Rightarrow> real list" where
  "projectedFCF a =
     projectFCF a (marginStepOf a) 0 (projectionYears a) (currentRevenue a) (ebitdaMargin a)"

definition projectedFCFHighGrowth :: "ValuationAssumptions \<Rightarrow> real list" where
  "projectedFCFHighGrowth a =
     projectFCFHighGrowth a (marginStepOf a) 0 (projectionYears a) (currentRevenue a)
       (ebitdaMargin a)"

text \<open>\<^verbatim>\<open>pvFCF += projectedFCF[i] / Math.pow(1 + wacc, i + 1)\<close>, from index \<open>i\<close> on.\<close>

fun discountLoop :: "real \<Rightarrow> nat \<Rightarrow> real list \<Rightarrow> real \<Rightarrow> real" where
  "discountLoop w i [] pvFCF = pvFCF"
| "discountLoop w i (fcf # rest) pvFCF = discountLoop w (Suc i) rest (pvFCF + fcf / (1 + w) ^ (i + 1))"

text \<open>
  The Gordon-growth terminal value and the discounted sum, as both DCF branches compute
  them. The source makes no test on \<open>wacc - terminalGrowthRate\<close> before it divides. With no
  projected year the last cash flow is \<^verbatim>\<open>undefined\<close> and the value is \<^verbatim>\<open>NaN\<close>: this is
  \<open>None\<close>.
\<close>

definition terminalValueOf :: "ValuationAssumptions \<Rightarrow> real \<Rightarrow> real" where
  "terminalValueOf a lastFCF =
     (let terminalFCF = lastFCF * (1 + terminalGrowthRate a)
      in terminalFCF / (wacc a - terminalGrowthRate a))"

definition dcfValue :: "ValuationAssumptions \<Rightarrow> real list \<Rightarrow> real option" where
  "dcfValue a fcfs =
     (case atLast fcfs of
        None \<Rightarrow> None
      | Some lastFCF \<Rightarrow>
          (let terminalValue = terminalValueOf a lastFCF;
               pvFCF = discountLoop (wacc a) 0 fcfs 0;
               pvTerminal = terminalValue / (1 + wacc a) ^ projectionYears a
           in Some (pvFCF + pvTerminal)))"

text \<open>
  The median of the positive comparable multiples:
  \<^verbatim>\<open>filter(c => c.m && c.m > 0).map(c => c.m).sort((a, b) => a - b)\<close> and the element at
  \<^verbatim>\<open>Math.floor(length / 2)\<close>; \<open>None\<close> when no comparable has the multiple.
\<close>

definition positiveMultiples :: "(ComparableCompany \<Rightarrow> real option) \<Rightarrow> ComparableCompany list \<Rightarrow> real list" where
  "positiveMultiples field cs =
     sort (concat (map (\<lambda>c. case field c of
                                 None \<Rightarrow> []
                               | Some m \<Rightarrow> if m \<noteq> 0 \<and> m > 0 then [m] else []) cs))"

definition medianOf :: "real list \<Rightarrow> real option" where
  "medianOf sortedMultiples = elementAt sortedMultiples (length sortedMultiples div 2)"

text \<open>The sales curve of a pipeline asset: ramp, peak, decline.\<close>

definition salesFactorOf :: "int \<Rightarrow> real" where
  "salesFactorOf yearsPostLaunch =
     (if yearsPostLaunch \<le> 3 then real_of_int yearsPostLaunch / 3
      else if yearsPostLaunch \<le> 7 then 1
      else 1 - (real_of_int yearsPostLaunch - 7) * 0.15)"

text \<open>
  \<^verbatim>\<open>for (let year = yearsToLaunch; year <= yearsToLaunch + 10; year++)\<close>, with \<open>k\<close> iterations
  left.
\<close>

fun assetLoop ::
  "ValuationAssumptions \<Rightarrow> PipelineAsset \<Rightarrow> int \<Rightarrow> int \<Rightarrow> nat \<Rightarrow> real \<Rightarrow> real" where
  "assetLoop a asset yearsToLaunch year 0 assetNPV = assetNPV"
| "assetLoop a asset yearsToLaunch year (Suc k) assetNPV =
     (let yearsPostLaunch = year - yearsToLaunch;
          salesFactor = salesFactorOf yearsPostLaunch;
          sales = peakSales asset * max 0 salesFactor;
          margin = 0.30;
          fcf = sales * margin * (1 - taxRate a)
      in assetLoop a asset yearsToLaunch (year + 1) k
           (assetNPV + fcf / power_int (1 + wacc a) year))"

definition riskAdjustedNPV :: "ValuationAssumptions \<Rightarrow> int \<Rightarrow> PipelineAsset \<Rightarrow> real" where
  "riskAdjustedNPV a currentYear asset =
     (let yearsToLaunch = launchYear asset - currentYear;
          assetNPV = assetLoop a asset yearsToLaunch yearsToLaunch 11 0
      in assetNPV * probabilityOfSuccess asset)"

text \<open>
  Step 1 of the function: the enterprise value and the warnings pushed on the way, by company
  type. \<open>currentYear\<close> is \<^verbatim>\<open>new Date().getFullYear()\<close>. \<^verbatim>\<open>Math.min\<close> of a number and
  \<^verbatim>\<open>NaN\<close> is \<^verbatim>\<open>NaN\<close>.
\<close>

definition valuation ::
  "int \<Rightarrow> ValuationAssumptions \<Rightarrow> (real \<times> ValuationWarning list) option" where
  "valuation currentYear a =
     (case companyType a of
        high_growth \<Rightarrow>
          (let medianEVRevenue = withDefault (medianOf (positiveMultiples evRevenue (comparables a))) 10;
               ntmRevenueV = currentRevenue a * (1 + orElse (elementAt (revenueGrowthRates a) 0) 0.30);
               comparableEV = ntmRevenueV * medianEVRevenue
           in case dcfValue a (projectedFCFHighGrowth a) of
                None \<Rightarrow> None
              | Some dcfEV \<Rightarrow> Some (min comparableEV dcfEV, []))
      | biotech \<Rightarrow>
          (case pipelineAssets a of
             Some (asset # assets) \<Rightarrow>
               Some (foldl (\<lambda>totalRNPV x. totalRNPV + riskAdjustedNPV a currentYear x) 0
                       (asset # assets), [])
           | _ \<Rightarrow>
               (let medianMultiple = withDefault (medianOf (positiveMultiples evRevenue (comparables a))) 5
                in Some (currentRevenue a * medianMultiple * 0.5, [LimitedPipelineData])))
      | _ \<Rightarrow>
          (case dcfValue a (projectedFCF a) of
             None \<Rightarrow> None
           | Some dcfEV \<Rightarrow>
               (case medianOf (positiveMultiples evEbitda (comparables a)) of
                  Some medianMultiple \<Rightarrow>
                    if currentEBITDA a > 0 \<and> companyType a = industrial
                    then Some (min dcfEV (currentEBITDA a * medianMultiple), [])
                    else Some (dcfEV, [])
                | None \<Rightarrow> Some (dcfEV, []))))"

section \<open>The engine with the valuation step: from the value to the result\<close>

text \<open>
  Steps 2 to 10 of the function. Each local constant is a definition over the enterprise
  value \<open>ev\<close> of step 1 and the assumptions.
\<close>

subsection \<open>Secondary shares\<close>

text \<open>
  The first loop over the holders: \<^verbatim>\<open>calculatedSecondaryShares += shares * percent\<close> for a
  holder whose sale percentage is set and positive. The direct total is used only when that
  sum is not positive.
\<close>

definition calculatedSecondaryShares :: "ValuationAssumptions \<Rightarrow> real" where
  "calculatedSecondaryShares a =
     foldl (\<lambda>acc holder.
              case secondarySalePercent holder of
                None \<Rightarrow> acc
              | Some percent \<Rightarrow>
                  if percent \<noteq> 0 \<and> percent > 0 then acc + shares holder * percent else acc)
       0 (breakdown (preIPOShares a))"

definition secondarySaleSharesOf :: "ValuationAssumptions \<Rightarrow> real" where
  "secondarySaleSharesOf a =
     (if calculatedSecondaryShares a > 0 then calculatedSecondaryShares a
      else secondarySaleShares a)"

subsection \<open>Equity value, price range, share mechanics, proceeds\<close>

definition equityValueOf :: "real \<Rightarrow> ValuationAssumptions \<Rightarrow> real" where
  "equityValueOf ev a = ev - currentDebtV a + currentCashV a"

definition fairValuePerShareOf :: "real \<Rightarrow> ValuationAssumptions \<Rightarrow> real" where
  "fairValuePerShareOf ev a = equityValueOf ev a / total (preIPOShares a)"

definition midPrice :: "real \<Rightarrow> ValuationAssumptions \<Rightarrow> real" where
  "midPrice ev a = fairValuePerShareOf ev a * (1 - ipoDiscountPercent a)"

definition lowPrice :: "real \<Rightarrow> ValuationAssumptions \<Rightarrow> real" where
  "lowPrice ev a = midPrice ev a * 0.90"

definition highPrice :: "real \<Rightarrow> ValuationAssumptions \<Rightarrow> real" where
  "highPrice ev a = midPrice ev a * 1.10"

definition primarySharesAtMid :: "real \<Rightarrow> ValuationAssumptions \<Rightarrow> real" where
  "primarySharesAtMid ev a = primaryRaiseAmount a / midPrice ev a"

definition primarySharesAtLow :: "real \<Rightarrow> ValuationAssumptions \<Rightarrow> real" where
  "primarySharesAtLow ev a = primaryRaiseAmount a / lowPrice ev a"

definition primarySharesAtHigh :: "real \<Rightarrow> ValuationAssumptions \<Rightarrow> real" where
  "primarySharesAtHigh ev a = primaryRaiseAmount a / highPrice ev a"

definition totalOfferingShares :: "real \<Rightarrow> ValuationAssumptions \<Rightarrow> real" where
  "totalOfferingShares ev a = primarySharesAtMid ev a + secondarySaleSharesOf a"

definition greenshoeSharesOf :: "real \<Rightarrow> ValuationAssumptions \<Rightarrow> real" where
  "greenshoeSharesOf ev a = totalOfferingShares ev a * greenshoePercentV a"

definition postIPOSharesOf :: "real \<Rightarrow> ValuationAssumptions \<Rightarrow> real" where
  "postIPOSharesOf ev a =
     total (preIPOShares a) + primarySharesAtMid ev a + greenshoeSharesOf ev a"

definition publicFloatOf :: "real \<Rightarrow> ValuationAssumptions \<Rightarrow> real" where
  "publicFloatOf ev a =
     primarySharesAtMid ev a + secondarySaleSharesOf a + greenshoeSharesOf ev a"

definition underwritingDiscount :: real where
  "underwritingDiscount = 0.07"

definition grossPrimaryProceedsOf :: "real \<Rightarrow> ValuationAssumptions \<Rightarrow> real" where
  "grossPrimaryProceedsOf ev a = primarySharesAtMid ev a * midPrice ev a"

definition netPrimaryProceedsOf :: "real \<Rightarrow> ValuationAssumptions \<Rightarrow> real" where
  "netPrimaryProceedsOf ev a = grossPrimaryProceedsOf ev a * (1 - underwritingDiscount)"

definition secondaryProceedsOf :: "real \<Rightarrow> ValuationAssumptions \<Rightarrow> real" where
  "secondaryProceedsOf ev a = secondarySaleSharesOf a * midPrice ev a * (1 - underwritingDiscount)"

definition greenshoeProceedsOf :: "real \<Rightarrow> ValuationAssumptions \<Rightarrow> real" where
  "greenshoeProceedsOf ev a = greenshoeSharesOf ev a * midPrice ev a * (1 - underwritingDiscount)"

definition totalOfferingSizeOf :: "real \<Rightarrow> ValuationAssumptions \<Rightarrow> real" where
  "totalOfferingSizeOf ev a =
     (primarySharesAtMid ev a + secondarySaleSharesOf a + greenshoeSharesOf ev a) * midPrice ev a"

subsection \<open>Position after the offering\<close>

text \<open>\<^verbatim>\<open>debtRepaymentAmount = 0\<close> in the destructuring: \<open>0\<close> when the field is missing.\<close>

definition debtRepaymentAmountOf :: "ValuationAssumptions \<Rightarrow> real" where
  "debtRepaymentAmountOf a = withDefault (debtRepaymentAmount a) 0"

definition postIPOCashOf :: "real \<Rightarrow> ValuationAssumptions \<Rightarrow> real" where
  "postIPOCashOf ev a =
     currentCashV a + netPrimaryProceedsOf ev a + greenshoeProceedsOf ev a
       - debtRepaymentAmountOf a"

definition postIPODebtOf :: "ValuationAssumptions \<Rightarrow> real" where
  "postIPODebtOf a = max 0 (currentDebtV a - debtRepaymentAmountOf a)"

definition marketCapOf :: "real \<Rightarrow> ValuationAssumptions \<Rightarrow> real" where
  "marketCapOf ev a = postIPOSharesOf ev a * midPrice ev a"

definition postIPOEnterpriseValueOf :: "real \<Rightarrow> ValuationAssumptions \<Rightarrow> real" where
  "postIPOEnterpriseValueOf ev a = marketCapOf ev a + postIPODebtOf a - postIPOCashOf ev a"

definition impliedPreIPOValuationOf :: "real \<Rightarrow> ValuationAssumptions \<Rightarrow> real" where
  "impliedPreIPOValuationOf ev a = midPrice ev a * total (preIPOShares a)"

subsection \<open>Ownership table\<close>

definition votingWeight :: "ValuationAssumptions \<Rightarrow> Shareholder \<Rightarrow> real" where
  "votingWeight a holder = (if dualClassShares a then orElse (votingMultiple holder) 1 else 1)"

definition holdersSecondarySale :: "Shareholder \<Rightarrow> real" where
  "holdersSecondarySale holder =
     (case secondarySalePercent holder of
        None \<Rightarrow> 0
      | Some percent \<Rightarrow> if percent \<noteq> 0 then shares holder * percent else 0)"

definition postIPOHolderShares :: "Shareholder \<Rightarrow> real" where
  "postIPOHolderShares holder = shares holder - holdersSecondarySale holder"

definition totalVotingShares :: "real \<Rightarrow> ValuationAssumptions \<Rightarrow> real" where
  "totalVotingShares ev a =
     foldl (\<lambda>acc holder. acc + postIPOHolderShares holder * votingWeight a holder) 0
       (breakdown (preIPOShares a))
     + publicFloatOf ev a * 1"

definition holderEntry :: "real \<Rightarrow> ValuationAssumptions \<Rightarrow> Shareholder \<Rightarrow> OwnershipEntry" where
  "holderEntry ev a holder =
     \<lparr> entryName = holderName holder,
       entryPreIPOShares = shares holder,
       preIPOPercent = (shares holder / total (preIPOShares a)) * 100,
       postIPOShares = postIPOHolderShares holder,
       postIPOPercent = (postIPOHolderShares holder / postIPOSharesOf ev a) * 100,
       votingPercent =
         (postIPOHolderShares holder * votingWeight a holder / totalVotingShares ev a) * 100 \<rparr>"

definition publicEntry :: "real \<Rightarrow> ValuationAssumptions \<Rightarrow> OwnershipEntry" where
  "publicEntry ev a =
     \<lparr> entryName = ''Public Shareholders'',
       entryPreIPOShares = 0,
       preIPOPercent = 0,
       postIPOShares = publicFloatOf ev a,
       postIPOPercent = (publicFloatOf ev a / postIPOSharesOf ev a) * 100,
       votingPercent = (publicFloatOf ev a * 1 / totalVotingShares ev a) * 100 \<rparr>"

definition ownershipTableOf :: "real \<Rightarrow> ValuationAssumptions \<Rightarrow> OwnershipEntry list" where
  "ownershipTableOf ev a = map (holderEntry ev a) (breakdown (preIPOShares a)) @ [publicEntry ev a]"

definition newSharesIssued :: "real \<Rightarrow> ValuationAssumptions \<Rightarrow> real" where
  "newSharesIssued ev a = primarySharesAtMid ev a + greenshoeSharesOf ev a"

definition dilutionPercentVOf :: "real \<Rightarrow> ValuationAssumptions \<Rightarrow> real" where
  "dilutionPercentVOf ev a =
     (newSharesIssued ev a / (total (preIPOShares a) + newSharesIssued ev a)) * 100"

definition totalFounderPostIPOShares :: "ValuationAssumptions \<Rightarrow> real" where
  "totalFounderPostIPOShares a =
     foldl (\<lambda>acc holder. acc + postIPOHolderShares holder) 0
       (filter (\<lambda>h. holderType h = founder) (breakdown (preIPOShares a)))"

definition founderPostIPOPercent :: "real \<Rightarrow> ValuationAssumptions \<Rightarrow> real" where
  "founderPostIPOPercent ev a = (totalFounderPostIPOShares a / postIPOSharesOf ev a) * 100"

text \<open>\<^verbatim>\<open>ownershipTable.reduce((sum, h) => sum + h.postIPOPercent, 0)\<close>\<close>

definition totalOwnership :: "real \<Rightarrow> ValuationAssumptions \<Rightarrow> real" where
  "totalOwnership ev a = foldl (\<lambda>sum h. sum + postIPOPercent h) 0 (ownershipTableOf ev a)"

subsection \<open>Multiples of the comparables\<close>

text \<open>Step 8 filters on the multiple being set and non-zero only, not on its sign.\<close>

definition truthyMultiples :: "(ComparableCompany \<Rightarrow> real option) \<Rightarrow> ComparableCompany list \<Rightarrow> real list" where
  "truthyMultiples field cs =
     sort (concat (map (\<lambda>c. case field c of
                                 None \<Rightarrow> []
                               | Some m \<Rightarrow> if m \<noteq> 0 then [m] else []) cs))"

definition impliedEVRevenueOf :: "real \<Rightarrow> ValuationAssumptions \<Rightarrow> real" where
  "impliedEVRevenueOf ev a = postIPOEnterpriseValueOf ev a / currentRevenue a"

definition impliedEVEBITDAOf :: "real \<Rightarrow> ValuationAssumptions \<Rightarrow> real option" where
  "impliedEVEBITDAOf ev a =
     (if currentEBITDA a > 0 then Some (postIPOEnterpriseValueOf ev a / currentEBITDA a) else None)"

subsection \<open>The three scenarios\<close>

text \<open>The locals \<^verbatim>\<open>postCash\<close>, \<^verbatim>\<open>postDebt\<close> and \<^verbatim>\<open>ev\<close> of \<^verbatim>\<open>createScenario\<close>.\<close>

definition scenarioGreenshoe :: "ValuationAssumptions \<Rightarrow> real \<Rightarrow> real" where
  "scenarioGreenshoe a primShares = (primShares + secondarySaleSharesOf a) * greenshoePercentV a"

definition scenarioNewShares :: "ValuationAssumptions \<Rightarrow> real \<Rightarrow> real" where
  "scenarioNewShares a primShares = primShares + scenarioGreenshoe a primShares"

definition postShares :: "ValuationAssumptions \<Rightarrow> real \<Rightarrow> real" where
  "postShares a primShares = total (preIPOShares a) + scenarioNewShares a primShares"

definition mktCap :: "ValuationAssumptions \<Rightarrow> real \<Rightarrow> real \<Rightarrow> real" where
  "mktCap a price primShares = postShares a primShares * price"

definition postCash :: "ValuationAssumptions \<Rightarrow> real \<Rightarrow> real \<Rightarrow> real" where
  "postCash a price primShares =
     (let netProceeds = primShares * price * (1 - underwritingDiscount);
          scenarioGreenshoeProceeds =
            scenarioGreenshoe a primShares * price * (1 - underwritingDiscount)
      in currentCashV a + netProceeds + scenarioGreenshoeProceeds - debtRepaymentAmountOf a)"

definition postDebt :: "ValuationAssumptions \<Rightarrow> real" where
  "postDebt a = max 0 (currentDebtV a - debtRepaymentAmountOf a)"

definition scenarioEV :: "ValuationAssumptions \<Rightarrow> real \<Rightarrow> real \<Rightarrow> real" where
  "scenarioEV a price primShares = mktCap a price primShares + postDebt a - postCash a price primShares"

definition createScenario ::
  "real \<Rightarrow> ValuationAssumptions \<Rightarrow> ScenarioName \<Rightarrow> real \<Rightarrow> real \<Rightarrow> Scenario" where
  "createScenario ev a scenarioName price primShares =
     (let dayOnePop = ((fairValuePerShareOf ev a - price) / price) * 100
      in \<lparr> scenario = scenarioName,
            scenarioOfferPrice = price,
            primaryShares = primShares,
            scenarioMarketCap = mktCap a price primShares,
            scenarioEnterpriseValue = scenarioEV a price primShares,
            scenarioEvRevenue = scenarioEV a price primShares / currentRevenue a,
            scenarioEvEbitda =
              (if currentEBITDA a > 0 then Some (scenarioEV a price primShares / currentEBITDA a)
               else None),
            dilution =
              (scenarioNewShares a primShares
                 / (total (preIPOShares a) + scenarioNewShares a primShares)) * 100,
            founderOwnership = (totalFounderPostIPOShares a / postShares a primShares) * 100,
            expectedDayOnePop = max 0 dayOnePop \<rparr>)"

definition scenarios :: "real \<Rightarrow> ValuationAssumptions \<Rightarrow> Scenario list" where
  "scenarios ev a =
     [createScenario ev a Low (lowPrice ev a) (primarySharesAtLow ev a),
      createScenario ev a Mid (midPrice ev a) (primarySharesAtMid ev a),
      createScenario ev a High (highPrice ev a) (primarySharesAtHigh ev a)]"

subsection \<open>Warnings, recommendation and the function\<close>

text \<open>The warnings after those of step 1, in the order in which the source pushes them.\<close>

definition validationWarnings :: "real \<Rightarrow> ValuationAssumptions \<Rightarrow> ValuationWarning list" where
  "validationWarnings ev a =
     (case founderControlMinimum a of
        None \<Rightarrow> []
      | Some minimum \<Rightarrow>
          if minimum \<noteq> 0 \<and> founderPostIPOPercent ev a < minimum * 100
          then [FounderOwnershipBelowMinimum (founderPostIPOPercent ev a) (minimum * 100)]
          else [])
     @ (if \<bar>totalOwnership ev a - 100\<bar> > 0.5 then [OwnershipSumNot100 (totalOwnership ev a)] else [])
     @ (if dilutionPercentVOf ev a \<ge> 100 then [DilutionInvalid (dilutionPercentVOf ev a)] else [])
     @ (if midPrice ev a \<ge> fairValuePerShareOf ev a
        then [OfferPriceNotBelowFairValue (midPrice ev a) (fairValuePerShareOf ev a)] else [])
     @ (if dilutionPercentVOf ev a > 30 then [HighDilution (dilutionPercentVOf ev a)] else [])
     @ (if currentEBITDA a < 0 then [NotYetProfitable] else [])"

definition recommendationOf :: "real \<Rightarrow> ValuationAssumptions \<Rightarrow> Recommendation" where
  "recommendationOf ev a =
     (let expectedPop = ((fairValuePerShareOf ev a - midPrice ev a) / midPrice ev a) * 100
      in if expectedPop > 30 then PriceHigher expectedPop (highPrice ev a)
         else if expectedPop < 10 then PriceCarefully expectedPop (lowPrice ev a)
         else PriceAtMidPoint expectedPop (midPrice ev a))"

definition valuationMethodologyOf :: "CompanyType \<Rightarrow> string" where
  "valuationMethodologyOf t =
     (case t of
        mature \<Rightarrow> ''Discounted Cash Flow (DCF) with Terminal Value''
      | industrial \<Rightarrow> ''EBITDA Multiple with DCF Cross-Check''
      | high_growth \<Rightarrow> ''Revenue Multiple with DCF Cross-Check''
      | biotech \<Rightarrow> ''Risk-Adjusted NPV (rNPV) with Pipeline Analysis'')"

text \<open>
  \<^verbatim>\<open>calculateIPOPricing\<close> of this engine. The result is \<open>None\<close> exactly when the value of
  step 1 is \<^verbatim>\<open>NaN\<close> (no projected year in a DCF branch): the source then still returns an
  object, all of whose derived figures are \<^verbatim>\<open>NaN\<close>. No input makes the source refuse or
  throw.
\<close>

definition calculateIPOPricingV :: "int \<Rightarrow> ValuationAssumptions \<Rightarrow> ValuationResult option" where
  "calculateIPOPricingV currentYear a =
     (case valuation currentYear a of
        None \<Rightarrow> None
      | Some (ev, valuationWarnings) \<Rightarrow>
          Some
            \<lparr> companyTypeOut = companyType a,
              valuationMethodology = valuationMethodologyOf (companyType a),
              enterpriseValue = ev,
              equityValue = equityValueOf ev a,
              fairValuePerShareV = fairValuePerShareOf ev a,
              preIPOSharesTotal = total (preIPOShares a),
              primarySharesIssued = primarySharesAtMid ev a,
              secondarySharesSold = secondarySaleSharesOf a,
              greenshoeSharesV = greenshoeSharesOf ev a,
              postIPOSharesTotal = postIPOSharesOf ev a,
              publicFloat = publicFloatOf ev a,
              priceRange = \<lparr> low = lowPrice ev a, mid = midPrice ev a, high = highPrice ev a \<rparr>,
              recommendedOfferPrice = midPrice ev a,
              grossPrimaryProceeds = grossPrimaryProceedsOf ev a,
              netPrimaryProceeds = netPrimaryProceedsOf ev a,
              secondaryProceeds = secondaryProceedsOf ev a,
              greenshoeProceeds = greenshoeProceedsOf ev a,
              totalOfferingSize = totalOfferingSizeOf ev a,
              postIPOCash = postIPOCashOf ev a,
              postIPODebt = postIPODebtOf a,
              postIPOEnterpriseValue = postIPOEnterpriseValueOf ev a,
              marketCap = marketCapOf ev a,
              impliedPreIPOValuation = impliedPreIPOValuationOf ev a,
              dilutionPercentV = dilutionPercentVOf ev a,
              ownershipTable = ownershipTableOf ev a,
              impliedEVRevenue = impliedEVRevenueOf ev a,
              impliedEVEBITDA = impliedEVEBITDAOf ev a,
              comparableMedianEVRevenue =
                withDefault (medianOf (truthyMultiples evRevenue (comparables a)))
                  (impliedEVRevenueOf ev a),
              comparableMedianEVEBITDA = medianOf (truthyMultiples evEbitda (comparables a)),
              pricingMatrixV = scenarios ev a,
              warningsV = valuationWarnings @ validationWarnings ev a,
              recommendation = recommendationOf ev a \<rparr>)"

section \<open>Inputs used to instantiate the theorems\<close>

text \<open>
  A dollar-denominated offering: 100M shares before the offering, a primary raise of 200
  (in millions of dollars), no greenshoe, a filing range of 19 to 21 dollars, cash of 50,
  debt of 30, a sector benchmark, and the order book with the tiers 30 (5 times
  oversubscribed) and 25 (10 times).
\<close>

definition exampleBook :: "OrderBookEntry list" where
  "exampleBook =
     [\<lparr>priceLevel = 30, tierOversubscription = 5\<rparr>,
      \<lparr>priceLevel = 25, tierOversubscription = 10\<rparr>]"

definition dollarOffering :: IPOAssumptions where
  "dollarOffering =
     \<lparr> sector = ''saas'',
       sharesOutstandingPreIPO = 100,
       primarySharesOffered = None,
       secondarySharesOffered = None,
       greenshoeShares = None,
       greenshoePercent = None,
       primaryDollarRaiseM = Some 200,
       secondaryDollarRaiseM = None,
       indicatedPriceRangeLow = Some 19,
       indicatedPriceRangeHigh = Some 21,
       currentCash = Some 50,
       currentDebt = Some 30,
       ntmRevenue = 400,
       fairValuePerShare = 25,
       totalRaNPV = None,
       peerMedianEVRevenue = 6,
       peerMedianEVRaNPV = None,
       orderBook = Some exampleBook,
       notableOrders = None,
       historicalFirstDayPop = None,
       sectorAverageFirstDayPop = Some (1 / 5),
       sectorMedianFirstDayPop = None,
       foundersEmployeesOwnership = 2 / 5,
       ceoGuidance = None,
       pricingAggressiveness = moderate,
       managementPriority = None,
       minAcceptablePrice = None,
       hasBinaryCatalyst = None,
       monthsToCatalyst = None,
       secondaryOptics = None,
       lastPrivateRoundPrice = None,
       downRoundOptics = None,
       downRoundIpoPenalty = None,
       dualClass = None,
       dualClassDiscountRate = None,
       growthRates = None,
       customerConcentrationTop5 = None \<rparr>"

text \<open>The same company with a share-denominated offering of 10M primary shares.\<close>

definition shareOffering :: IPOAssumptions where
  "shareOffering = dollarOffering\<lparr>primaryDollarRaiseM := None, primarySharesOffered := Some 10\<rparr>"


text \<open>
  The dollar-denominated offering with named orders: one whose maximum acceptable price is
  \<open>0\<close>; and one of 2500 with a maximum of 19.50 beside one without a maximum.
\<close>

definition zeroCapOrder :: IPOAssumptions where
  "zeroCapOrder =
     dollarOffering\<lparr>notableOrders :=
       Some [\<lparr>investorName = ''Fund A'', indicatedSizeM = 50, maxPrice = Some 0\<rparr>]\<rparr>"

definition largeDropOff :: IPOAssumptions where
  "largeDropOff =
     dollarOffering\<lparr>notableOrders :=
       Some [\<lparr>investorName = ''Fund B'', indicatedSizeM = 2500, maxPrice = Some (39 / 2)\<rparr>,
             \<lparr>investorName = ''Fund C'', indicatedSizeM = 40, maxPrice = None\<rparr>]\<rparr>"

text \<open>The dollar-denominated offering without any sector benchmark.\<close>

definition noBenchmark :: IPOAssumptions where
  "noBenchmark = dollarOffering\<lparr>sectorAverageFirstDayPop := None\<rparr>"

text \<open>An order book whose upper tier is exactly once subscribed.\<close>

definition unitTierBook :: "OrderBookEntry list" where
  "unitTierBook =
     [\<lparr>priceLevel = 30, tierOversubscription = 1\<rparr>,
      \<lparr>priceLevel = 25, tierOversubscription = 10\<rparr>]"

text \<open>
  Inputs of the engine with the valuation step. A company of type biotech without pipeline
  data and without comparables, so that its value is \<open>392 \<times> 5 \<times> 0.5 = 980\<close>: 100M shares held
  by a founder (60) and a fund (40), cash of 50, debt of 30, a requested debt repayment of
  40, a primary raise of 200, a secondary sale of 20M shares given as a direct total, no
  greenshoe and an IPO discount of 20 per cent. The equity value is 1000, the fair value per
  share 10 and the offer price 8.
\<close>

definition biotechCompany :: ValuationAssumptions where
  "biotechCompany =
     \<lparr> companyType = biotech,
       preIPOShares =
         \<lparr> total = 100,
           breakdown =
             [\<lparr> holderName = ''Founder'', shares = 60, holderType = founder,
                 votingMultiple = None, secondarySalePercent = None \<rparr>,
              \<lparr> holderName = ''Fund'', shares = 40, holderType = investor,
                 votingMultiple = None, secondarySalePercent = None \<rparr>] \<rparr>,
       currentRevenue = 392,
       revenueGrowthRates = [1 / 10],
       currentEBITDA = 0,
       ebitdaMargin = 1 / 5,
       targetEbitdaMargin = 1 / 5,
       currentCashV = 50,
       currentDebtV = 30,
       taxRate = 1 / 4,
       wacc = 1 / 10,
       terminalGrowthRate = 21 / 100,
       primaryRaiseAmount = 200,
       secondarySaleShares = 20,
       greenshoePercentV = 0,
       debtRepaymentAmount = Some 40,
       comparables = [],
       dualClassShares = False,
       founderControlMinimum = None,
       pipelineAssets = None,
       ipoDiscountPercent = 1 / 5,
       projectionYears = 1 \<rparr>"

text \<open>
  The same company as a mature one, with revenue 1000 growing by 10 per cent, a margin of
  20 per cent, one projected year, a discount rate of 10 per cent and a terminal growth rate
  of 21 per cent: the one projected cash flow is 110.
\<close>

definition matureCompany :: ValuationAssumptions where
  "matureCompany = biotechCompany\<lparr>companyType := mature, currentRevenue := 1000, currentEBITDA := 200\<rparr>"

text \<open>The biotech company with the founder selling a quarter of the position.\<close>

definition fractionSale :: ValuationAssumptions where
  "fractionSale =
     biotechCompany\<lparr>preIPOShares :=
       \<lparr> total = 100,
         breakdown =
           [\<lparr> holderName = ''Founder'', shares = 60, holderType = founder,
               votingMultiple = None, secondarySalePercent = Some (1 / 4) \<rparr>,
            \<lparr> holderName = ''Fund'', shares = 40, holderType = investor,
               votingMultiple = None, secondarySalePercent = None \<rparr>] \<rparr>\<rparr>"

text \<open>The biotech company with a list of holders that does not add up to the stated total, and no secondary sale.\<close>

definition incompleteBreakdown :: ValuationAssumptions where
  "incompleteBreakdown =
     biotechCompany\<lparr>secondarySaleShares := 0,
       preIPOShares :=
         \<lparr> total = 100,
           breakdown =
             [\<lparr> holderName = ''Founder'', shares = 60, holderType = founder,
                 votingMultiple = None, secondarySalePercent = None \<rparr>,
              \<lparr> holderName = ''Fund'', shares = 30, holderType = investor,
                 votingMultiple = None, secondarySalePercent = None \<rparr>] \<rparr>\<rparr>"

text \<open>The biotech company with no secondary sale at all.\<close>

definition noSecondarySale :: ValuationAssumptions where
  "noSecondarySale = biotechCompany\<lparr>secondarySaleShares := 0\<rparr>"
section \<open>Notions used in the statements\<close>

text \<open>The rows of the matrix that \<^verbatim>\<open>calculateIPOPricing\<close> returns.\<close>

definition matrixRows :: "IPOAssumptions \<Rightarrow> PricingRow list" where
  "matrixRows a = (case calculateIPOPricing a of Inl e \<Rightarrow> [] | Inr r \<Rightarrow> pricingMatrix r)"

text \<open>
  The condition of the specification on the price range: the indicated range is absent, or
  one of its ends is not positive, or the high end is not above the low end.
\<close>

definition priceRangeMissingOrInvalid :: "IPOAssumptions \<Rightarrow> bool" where
  "priceRangeMissingOrInvalid a =
     (case indicatedPriceRangeLow a of
        None \<Rightarrow> True
      | Some lo \<Rightarrow>
          (case indicatedPriceRangeHigh a of
             None \<Rightarrow> True
           | Some hi \<Rightarrow> lo \<le> 0 \<or> hi \<le> 0 \<or> hi \<le> lo))"

section \<open>The price grid and the matrix\<close>

lemma pricePointsFrom_bounds:
  "x \<in> set (pricePointsFrom p hi) \<Longrightarrow> 0 < x \<and> p \<le> x \<and> x \<le> hi"
proof (induction p hi rule: pricePointsFrom.induct)
  case (1 p hi)
  show ?case
  proof (cases "p \<le> hi")
    case True
    with "1.prems" have "x = p \<and> 0 < p \<or> x \<in> set (pricePointsFrom (p + 1) hi)"
      by (subst (asm) pricePointsFrom.simps) (auto split: if_splits)
    then show ?thesis
      using "1.IH" [OF True] True by auto
  next
    case False
    with "1.prems" show ?thesis
      by (subst (asm) pricePointsFrom.simps) simp
  qed
qed

lemma pricePointsFrom_first:
  "0 < p \<Longrightarrow> p \<le> hi \<Longrightarrow> pricePointsFrom p hi = p # pricePointsFrom (p + 1) hi"
  by (subst pricePointsFrom.simps) simp

lemma pricePoints_19_21: "pricePointsFrom 19 21 = [19, 20, 21]"
  by (simp add: pricePointsFrom.simps [of 19] pricePointsFrom.simps [of 20]
        pricePointsFrom.simps [of 21] pricePointsFrom.simps [of 22])

lemma sortDescending_Nil_iff: "sortDescending f xs = [] \<longleftrightarrow> xs = []"
  unfolding sortDescending_def
  by (metis length_sort length_0_conv)

text \<open>With a row in the matrix the selection of the recommended row does not throw.\<close>

lemma selectRow_total:
  assumes "matrix \<noteq> []"
  shows "\<exists>sel. selectRow a lo hi matrix = Inr sel"
proof -
  obtain r rs where "sortDescending offerPrice matrix = r # rs"
    using assms sortDescending_Nil_iff [of offerPrice matrix]
    by (cases "sortDescending offerPrice matrix") auto
  then show ?thesis
    by (auto simp: selectRow_def Let_def split: option.splits)
qed

text \<open>
  With a positive low end below the high end the function returns a result, and its matrix
  has one row for each price point of the range.
\<close>

lemma calculateIPOPricing_valid:
  assumes "indicatedPriceRangeLow a = Some lo" and "indicatedPriceRangeHigh a = Some hi"
    and "0 < lo" and "lo < hi"
  shows "\<exists>r. calculateIPOPricing a = Inr r \<and> pricingMatrix r = pricingMatrixOf a lo hi"
proof -
  have "pricingMatrixOf a lo hi \<noteq> []"
    using assms by (simp add: pricingMatrixOf_def pricePointsFrom_first)
  then obtain sel where "selectRow a lo hi (pricingMatrixOf a lo hi) = Inr sel"
    using selectRow_total by blast
  then show ?thesis
    using assms by (auto simp: calculateIPOPricing_def Let_def split: prod.splits)
qed

text \<open>The function returns for every input: the branch that throws is not reachable.\<close>

lemma calculateIPOPricing_returns: "\<exists>r. calculateIPOPricing a = Inr r"
proof (cases "indicatedPriceRangeLow a")
  case None
  then show ?thesis by (simp add: calculateIPOPricing_def)
next
  case lo: (Some lo)
  show ?thesis
  proof (cases "indicatedPriceRangeHigh a")
    case None
    then show ?thesis using lo by (simp add: calculateIPOPricing_def)
  next
    case hi: (Some hi)
    show ?thesis
    proof (cases "0 < lo \<and> lo < hi")
      case True
      then show ?thesis
        using calculateIPOPricing_valid [OF lo hi] by blast
    next
      case False
      then show ?thesis
        using lo hi by (auto simp: calculateIPOPricing_def)
    qed
  qed
qed

lemma matrixRows_valid:
  assumes "indicatedPriceRangeLow a = Some lo" and "indicatedPriceRangeHigh a = Some hi"
    and "0 < lo" and "lo < hi"
  shows "matrixRows a = map (pricingRow a) (pricePointsFrom lo hi)"
  using calculateIPOPricing_valid [OF assms] by (auto simp: matrixRows_def pricingMatrixOf_def)

text \<open>Every row of a returned matrix is the row of a positive price.\<close>

lemma matrixRows_cases:
  assumes "row \<in> set (matrixRows a)"
  shows "\<exists>p. row = pricingRow a p \<and> 0 < p"
proof -
  obtain r where r: "calculateIPOPricing a = Inr r" and row: "row \<in> set (pricingMatrix r)"
    using assms by (cases "calculateIPOPricing a") (auto simp: matrixRows_def)
  from r row obtain lo hi where "row \<in> set (pricingMatrixOf a lo hi)"
    by (auto simp: calculateIPOPricing_def errorResult_def Let_def
             split: option.splits if_splits sum.splits prod.splits)
  then show ?thesis
    using pricePointsFrom_bounds by (auto simp: pricingMatrixOf_def)
qed

lemmas share_defs = sharesSoldPrimaryOf_def sharesSoldSecondaryOf_def sharesSoldGreenshoeOf_def
  totalSharesSoldOf_def dilutiveShares_def fdSharesPostIPOOf_def dilutionPercentOf_def
  primaryProceedsMOf_def secondaryProceedsMOf_def grossProceedsMOf_def marketCapMOf_def
  postIPOCashMOf_def currentDebtMOf_def enterpriseValueMOf_def

text \<open>The fields of a row that the statements below read.\<close>

lemma pricingRow_simps [simp]:
  "offerPrice (pricingRow a p) = p"
  "sharesSoldPrimary (pricingRow a p) = sharesSoldPrimaryOf a p"
  "sharesSoldSecondary (pricingRow a p) = sharesSoldSecondaryOf a p"
  "sharesSoldGreenshoe (pricingRow a p) = sharesSoldGreenshoeOf a p"
  "totalSharesSold (pricingRow a p) = totalSharesSoldOf a p"
  "fdSharesPostIPO (pricingRow a p) = fdSharesPostIPOOf a p"
  "dilutionPercent (pricingRow a p) = dilutionPercentOf a p"
  "marketCapM (pricingRow a p) = marketCapMOf a p"
  "postIPOCashM (pricingRow a p) = postIPOCashMOf a p"
  "currentDebtM (pricingRow a p) = currentDebtMOf a"
  "enterpriseValueM (pricingRow a p) = enterpriseValueMOf a p"
  "grossProceedsM (pricingRow a p) = grossProceedsMOf a p"
  "primaryProceedsM (pricingRow a p) = primaryProceedsMOf a p"
  "secondaryProceedsM (pricingRow a p) = secondaryProceedsMOf a p"
  "oversubscription (pricingRow a p) = oversubscriptionOf a p"
  "effectiveOversubscription (pricingRow a p) = effectiveOversubscriptionOf a p"
  "orderBookTier (pricingRow a p) = orderBookTierOf a p"
  "investorsDropping (pricingRow a p) = investorsDroppingOf a p"
  "demandLostM (pricingRow a p) = demandLostMOf a p"
  "bookQualityAdjustment (pricingRow a p) = bookQualityAdjustmentOf a p"
  by (simp_all add: pricingRow_def)

lemma matrixRows_19_21:
  assumes "indicatedPriceRangeLow a = Some 19" and "indicatedPriceRangeHigh a = Some 21"
  shows "matrixRows a = [pricingRow a 19, pricingRow a 20, pricingRow a 21]"
  using matrixRows_valid [OF assms] by (simp add: pricePoints_19_21)

text \<open>The loop over the notable orders is a filter and a sum.\<close>

lemma dropOffLoop_eq:
  "dropOffLoop p orders (names, lost)
     = (names @ map investorName (filter (dropsAt p) orders),
        lost + sum_list (map indicatedSizeM (filter (dropsAt p) orders)))"
  by (induction orders arbitrary: names lost) simp_all

text \<open>The order book and the gross proceeds of the example offerings.\<close>

lemma dollarOffering_fields [simp]:
  "indicatedPriceRangeLow dollarOffering = Some 19"
  "indicatedPriceRangeHigh dollarOffering = Some 21"
  "sharesOutstandingPreIPO dollarOffering = 100"
  "primarySharesOffered dollarOffering = None"
  "secondarySharesOffered dollarOffering = None"
  "greenshoeShares dollarOffering = None"
  "greenshoePercent dollarOffering = None"
  "primaryDollarRaiseM dollarOffering = Some 200"
  "secondaryDollarRaiseM dollarOffering = None"
  "currentCash dollarOffering = Some 50"
  "currentDebt dollarOffering = Some 30"
  "orderBook dollarOffering = Some exampleBook"
  "notableOrders dollarOffering = None"
  "historicalFirstDayPop dollarOffering = None"
  "sectorAverageFirstDayPop dollarOffering = Some (1 / 5)"
  "sectorMedianFirstDayPop dollarOffering = None"
  by (simp_all add: dollarOffering_def)

lemma sortedOrderBook_exampleBook:
  assumes "orderBook a = Some exampleBook"
  shows "sortedOrderBook a = exampleBook"
  using assms by (simp add: sortedOrderBook_def sortDescending_def exampleBook_def)

lemma oversubscription_below_exampleBook:
  assumes "orderBook a = Some exampleBook" and "p < 25"
  shows "oversubscriptionOf a p = 10"
  using assms(2)
  by (simp add: oversubscriptionOf_def sortedOrderBook_exampleBook [OF assms(1)]
        orderBookLookup_def exampleBook_def)

lemma gross_of_dollar_raise:
  assumes "primaryDollarRaiseM a = Some 200" and "secondaryDollarRaiseM a = None"
    and "greenshoePercent a = None" and "0 < p"
  shows "grossProceedsMOf a p = 200"
  using assms by (simp add: share_defs useDollarBased_def withDefault_def orElse_def)

text \<open>An order book was supplied when the input has a non-empty one.\<close>

lemma hasExplicitOrderBook_iff:
  "hasExplicitOrderBook a \<longleftrightarrow> (\<exists>book. orderBook a = Some book \<and> book \<noteq> [])"
  by (cases "orderBook a")
     (simp_all add: hasExplicitOrderBook_def sortedOrderBook_def sortDescending_def)

lemma eff_without_orders:
  assumes "notableOrders a = None"
  shows "effectiveOversubscriptionOf a p = oversubscriptionOf a p"
  using assms by (simp add: effectiveOversubscriptionOf_def demandLostMOf_def withDefault_def)

text \<open>Every price of the grid is reached by whole steps from its start.\<close>

lemma pricePointsFrom_member:
  "0 < p \<Longrightarrow> p + real n \<le> hi \<Longrightarrow> p + real n \<in> set (pricePointsFrom p hi)"
proof (induction n arbitrary: p)
  case 0
  then show ?case by (simp add: pricePointsFrom_first)
next
  case (Suc n)
  have eq: "p + real (Suc n) = (p + 1) + real n"
    by simp
  have "(p + 1) + real n \<in> set (pricePointsFrom (p + 1) hi)"
    using Suc.prems by (intro Suc.IH) auto
  then have "p + real (Suc n) \<in> set (pricePointsFrom (p + 1) hi)"
    by (simp only: eq)
  moreover have "pricePointsFrom p hi = p # pricePointsFrom (p + 1) hi"
    using Suc.prems by (intro pricePointsFrom_first) auto
  ultimately show ?case by (simp del: of_nat_Suc)
qed

section \<open>Facts about the engine with the valuation step\<close>

lemma biotechCompany_fields [simp]:
  "companyType biotechCompany = biotech"
  "total (preIPOShares biotechCompany) = 100"
  "breakdown (preIPOShares biotechCompany)
     = [\<lparr> holderName = ''Founder'', shares = 60, holderType = founder,
           votingMultiple = None, secondarySalePercent = None \<rparr>,
        \<lparr> holderName = ''Fund'', shares = 40, holderType = investor,
           votingMultiple = None, secondarySalePercent = None \<rparr>]"
  "currentRevenue biotechCompany = 392"
  "revenueGrowthRates biotechCompany = [1 / 10]"
  "currentEBITDA biotechCompany = 0"
  "ebitdaMargin biotechCompany = 1 / 5"
  "targetEbitdaMargin biotechCompany = 1 / 5"
  "currentCashV biotechCompany = 50"
  "currentDebtV biotechCompany = 30"
  "taxRate biotechCompany = 1 / 4"
  "wacc biotechCompany = 1 / 10"
  "terminalGrowthRate biotechCompany = 21 / 100"
  "primaryRaiseAmount biotechCompany = 200"
  "secondarySaleShares biotechCompany = 20"
  "greenshoePercentV biotechCompany = 0"
  "debtRepaymentAmount biotechCompany = Some 40"
  "comparables biotechCompany = []"
  "dualClassShares biotechCompany = False"
  "founderControlMinimum biotechCompany = None"
  "pipelineAssets biotechCompany = None"
  "ipoDiscountPercent biotechCompany = 1 / 5"
  "projectionYears biotechCompany = 1"
  by (simp_all add: biotechCompany_def)


lemma projectedFCF_matureCompany: "projectedFCF matureCompany = [110]"
  by (simp add: projectedFCF_def marginStepOf_def matureCompany_def
        growthRateAt_def elementAt_def orElse_def)

lemma dcfValue_matureCompany: "dcfValue matureCompany [110] = Some (- 1000)"
  by (simp add: dcfValue_def atLast_def terminalValueOf_def matureCompany_def)

lemma valuation_matureCompany: "valuation y matureCompany = Some (- 1000, [])"
proof -
  have "companyType matureCompany = mature" "comparables matureCompany = []"
    by (simp_all add: matureCompany_def)
  then show ?thesis
    by (simp add: valuation_def projectedFCF_matureCompany dcfValue_matureCompany
          positiveMultiples_def medianOf_def elementAt_def)
qed


lemma projectFCF_length: "length (projectFCF a step i k revenue margin) = k"
  by (induction k arbitrary: i revenue margin) (simp_all add: Let_def)

lemma dcfValue_defined:
  assumes "0 < projectionYears a"
  shows "dcfValue a (projectedFCF a)
           = Some (discountLoop (wacc a) 0 (projectedFCF a) 0
                   + terminalValueOf a (last (projectedFCF a)) / (1 + wacc a) ^ projectionYears a)"
proof -
  have "length (projectedFCF a) = projectionYears a"
    by (simp add: projectedFCF_def projectFCF_length)
  then have "projectedFCF a \<noteq> []"
    using assms by auto
  then show ?thesis
    by (cases "projectedFCF a") (simp_all add: dcfValue_def atLast_def)
qed

lemma projectFCFHighGrowth_length:
  "length (projectFCFHighGrowth a step i k revenue margin) = k"
  by (induction k arbitrary: i revenue margin) (simp_all add: Let_def)

text \<open>
  The function has figures to return for a biotech company and, with at least one projected
  year, for every company type.
\<close>

lemma valuation_defined:
  assumes "0 < projectionYears a \<or> companyType a = biotech"
  shows "\<exists>ev ws. valuation y a = Some (ev, ws)"
proof -
  have "valuation y a \<noteq> None"
  proof (cases "companyType a = biotech")
    case True
    then show ?thesis
      by (simp add: valuation_def Let_def split: option.splits list.splits del: not_None_eq)
  next
    case False
    then have years: "0 < projectionYears a"
      using assms by simp
    have "length (projectedFCFHighGrowth a) = projectionYears a"
      by (simp add: projectedFCFHighGrowth_def projectFCFHighGrowth_length)
    then have "projectedFCFHighGrowth a \<noteq> []"
      using years by auto
    then have hg: "dcfValue a (projectedFCFHighGrowth a) \<noteq> None"
      by (cases "projectedFCFHighGrowth a") (auto simp: dcfValue_def atLast_def)
    show ?thesis
      using False hg dcfValue_defined [OF years]
      by (cases "companyType a")
         (auto simp: valuation_def Let_def split: option.splits simp del: not_None_eq)
  qed
  then show ?thesis
    by (cases "valuation y a") auto
qed

lemma calculateIPOPricingV_defined:
  assumes "0 < projectionYears a \<or> companyType a = biotech"
  shows "\<exists>r. calculateIPOPricingV y a = Some r"
  using valuation_defined [OF assms, of y] by (auto simp: calculateIPOPricingV_def)

lemma calculateIPOPricingV_Some:
  assumes "valuation y a = Some (ev, ws)"
  shows "\<exists>r. calculateIPOPricingV y a = Some r \<and> enterpriseValue r = ev
           \<and> pricingMatrixV r = scenarios ev a \<and> warningsV r = ws @ validationWarnings ev a
           \<and> ownershipTable r = ownershipTableOf ev a
           \<and> postIPOSharesTotal r = postIPOSharesOf ev a
           \<and> recommendedOfferPrice r = midPrice ev a"
  using assms by (simp add: calculateIPOPricingV_def)

lemma matureCompany_fields [simp]:
  "companyType matureCompany = mature"
  "projectionYears matureCompany = 1"
  "wacc matureCompany = 1 / 10"
  "terminalGrowthRate matureCompany = 21 / 100"
  "total (preIPOShares matureCompany) = 100"
  "currentDebtV matureCompany = 30"
  "currentCashV matureCompany = 50"
  "ipoDiscountPercent matureCompany = 1 / 5"
  by (simp_all add: matureCompany_def)

lemma secondary_loop_eq:
  "foldl (\<lambda>acc holder.
            case secondarySalePercent holder of
              None \<Rightarrow> acc
            | Some percent \<Rightarrow>
                if percent \<noteq> 0 \<and> percent > 0 then acc + shares holder * percent else acc) z xs
     = z + sum_list (map (\<lambda>h. case secondarySalePercent h of
                              None \<Rightarrow> 0
                            | Some q \<Rightarrow> if q > 0 then shares h * q else 0) xs)"
  by (induction xs arbitrary: z) (auto split: option.splits)

lemma calculatedSecondaryShares_eq:
  "calculatedSecondaryShares a
     = sum_list (map (\<lambda>h. case secondarySalePercent h of
                              None \<Rightarrow> 0
                            | Some q \<Rightarrow> if q > 0 then shares h * q else 0)
                   (breakdown (preIPOShares a)))"
  unfolding calculatedSecondaryShares_def secondary_loop_eq by simp



lemma holders_sales_none:
  assumes "list_all (\<lambda>h. secondarySalePercent h = None) xs"
  shows "sum_list (map holdersSecondarySale xs) = 0"
    and "sum_list (map (\<lambda>h. case secondarySalePercent h of
                              None \<Rightarrow> 0
                            | Some q \<Rightarrow> if q > 0 then shares h * q else 0) xs) = 0"
  using assms by (induction xs) (auto simp: holdersSecondarySale_def)

lemma sum_postIPOHolderShares:
  "sum_list (map postIPOHolderShares xs)
     = sum_list (map shares xs) - sum_list (map holdersSecondarySale xs)"
  by (induction xs) (simp_all add: postIPOHolderShares_def)

lemma sum_percent:
  fixes f :: "'a \<Rightarrow> real"
  shows "sum_list (map (\<lambda>h. f h / d * 100) xs) = sum_list (map f xs) / d * 100"
  by (induction xs) (simp_all add: add_divide_distrib distrib_right)

lemma ownership_sum_formula:
  "sum_list (map postIPOPercent (ownershipTableOf ev a))
     = (sum_list (map shares (breakdown (preIPOShares a)))
        - sum_list (map holdersSecondarySale (breakdown (preIPOShares a)))
        + publicFloatOf ev a) / postIPOSharesOf ev a * 100"
proof -
  have "sum_list (map postIPOPercent (ownershipTableOf ev a))
      = sum_list (map (\<lambda>h. postIPOHolderShares h / postIPOSharesOf ev a * 100)
                    (breakdown (preIPOShares a)))
        + publicFloatOf ev a / postIPOSharesOf ev a * 100"
    by (simp add: ownershipTableOf_def holderEntry_def publicEntry_def comp_def)
  also have "\<dots> = (sum_list (map shares (breakdown (preIPOShares a)))
        - sum_list (map holdersSecondarySale (breakdown (preIPOShares a)))) / postIPOSharesOf ev a * 100
        + publicFloatOf ev a / postIPOSharesOf ev a * 100"
    by (simp only: sum_percent sum_postIPOHolderShares)
  also have "\<dots> = (sum_list (map shares (breakdown (preIPOShares a)))
        - sum_list (map holdersSecondarySale (breakdown (preIPOShares a)))
        + publicFloatOf ev a) / postIPOSharesOf ev a * 100"
    by (simp add: add_divide_distrib distrib_right)
  finally show ?thesis .
qed


lemma fractionSale_fields [simp]:
  "companyType fractionSale = biotech"
  "total (preIPOShares fractionSale) = 100"
  "breakdown (preIPOShares fractionSale)
     = [\<lparr> holderName = ''Founder'', shares = 60, holderType = founder,
           votingMultiple = None, secondarySalePercent = Some (1 / 4) \<rparr>,
        \<lparr> holderName = ''Fund'', shares = 40, holderType = investor,
           votingMultiple = None, secondarySalePercent = None \<rparr>]"
  "currentRevenue fractionSale = 392"
  "currentCashV fractionSale = 50"
  "currentDebtV fractionSale = 30"
  "primaryRaiseAmount fractionSale = 200"
  "secondarySaleShares fractionSale = 20"
  "greenshoePercentV fractionSale = 0"
  "comparables fractionSale = []"
  "pipelineAssets fractionSale = None"
  "ipoDiscountPercent fractionSale = 1 / 5"
  by (simp_all add: fractionSale_def)



lemma incompleteBreakdown_fields [simp]:
  "companyType incompleteBreakdown = biotech"
  "total (preIPOShares incompleteBreakdown) = 100"
  "breakdown (preIPOShares incompleteBreakdown)
     = [\<lparr> holderName = ''Founder'', shares = 60, holderType = founder,
           votingMultiple = None, secondarySalePercent = None \<rparr>,
        \<lparr> holderName = ''Fund'', shares = 30, holderType = investor,
           votingMultiple = None, secondarySalePercent = None \<rparr>]"
  "currentRevenue incompleteBreakdown = 392"
  "currentEBITDA incompleteBreakdown = 0"
  "currentCashV incompleteBreakdown = 50"
  "currentDebtV incompleteBreakdown = 30"
  "primaryRaiseAmount incompleteBreakdown = 200"
  "secondarySaleShares incompleteBreakdown = 0"
  "greenshoePercentV incompleteBreakdown = 0"
  "comparables incompleteBreakdown = []"
  "pipelineAssets incompleteBreakdown = None"
  "founderControlMinimum incompleteBreakdown = None"
  "ipoDiscountPercent incompleteBreakdown = 1 / 5"
  by (simp_all add: incompleteBreakdown_def)


lemma noSecondarySale_fields [simp]:
  "companyType noSecondarySale = biotech"
  "total (preIPOShares noSecondarySale) = 100"
  "breakdown (preIPOShares noSecondarySale)
     = [\<lparr> holderName = ''Founder'', shares = 60, holderType = founder,
           votingMultiple = None, secondarySalePercent = None \<rparr>,
        \<lparr> holderName = ''Fund'', shares = 40, holderType = investor,
           votingMultiple = None, secondarySalePercent = None \<rparr>]"
  "currentRevenue noSecondarySale = 392"
  "currentEBITDA noSecondarySale = 0"
  "currentCashV noSecondarySale = 50"
  "currentDebtV noSecondarySale = 30"
  "primaryRaiseAmount noSecondarySale = 200"
  "secondarySaleShares noSecondarySale = 0"
  "greenshoePercentV noSecondarySale = 0"
  "comparables noSecondarySale = []"
  "pipelineAssets noSecondarySale = None"
  "founderControlMinimum noSecondarySale = None"
  "ipoDiscountPercent noSecondarySale = 1 / 5"
  by (simp_all add: noSecondarySale_def)


text \<open>
  With the secondary sale given as a direct total and no holder stating a fraction, the
  percentages exceed 100 by the share of the secondary shares in the shares after the
  offering.
\<close>

lemma ownership_sum_direct_total:
  assumes "sum_list (map shares (breakdown (preIPOShares a))) = total (preIPOShares a)"
    and "list_all (\<lambda>h. secondarySalePercent h = None) (breakdown (preIPOShares a))"
    and "postIPOSharesOf ev a \<noteq> 0"
  shows "sum_list (map postIPOPercent (ownershipTableOf ev a))
           = 100 + 100 * secondarySaleShares a / postIPOSharesOf ev a"
proof -
  have "calculatedSecondaryShares a = 0"
    using holders_sales_none(2) [OF assms(2)] by (simp add: calculatedSecondaryShares_eq)
  then have "sum_list (map shares (breakdown (preIPOShares a)))
        - sum_list (map holdersSecondarySale (breakdown (preIPOShares a)))
        + publicFloatOf ev a = postIPOSharesOf ev a + secondarySaleShares a"
    using assms(1) holders_sales_none(1) [OF assms(2)]
    by (simp add: publicFloatOf_def postIPOSharesOf_def secondarySaleSharesOf_def)
  then show ?thesis
    unfolding ownership_sum_formula using assms(3) by (simp add: field_simps)
qed

section \<open>The price range is required\<close>

text \<open>
  C1. For every input whose indicated price range is absent, non-positive or has its high
  end at or below its low end, \<^verbatim>\<open>calculateIPOPricing\<close> returns normally (it does not throw)
  a result whose pricing matrix is empty and whose warnings are exactly one of the two
  error messages; the recommended range and price of that result are \<open>0\<close>, so no substitute
  range is made up.
\<close>

theorem invalid_price_range_refused:
  assumes "priceRangeMissingOrInvalid a"
  shows "\<exists>r msg. calculateIPOPricing a = Inr r
           \<and> pricingMatrix r = []
           \<and> warnings r = [Message msg]
           \<and> (msg = rangeRequiredError \<or> msg = rangeInvertedError)
           \<and> recommendedRangeLow r = 0 \<and> recommendedRangeHigh r = 0 \<and> recommendedPrice r = 0"
  using assms
  by (auto simp: priceRangeMissingOrInvalid_def calculateIPOPricing_def errorResult_def
           split: option.splits)

theorem invalid_price_range_refused_witness:
  "priceRangeMissingOrInvalid (dollarOffering\<lparr>indicatedPriceRangeHigh := Some 19\<rparr>)
   \<and> (\<exists>r msg. calculateIPOPricing (dollarOffering\<lparr>indicatedPriceRangeHigh := Some 19\<rparr>) = Inr r
           \<and> pricingMatrix r = []
           \<and> warnings r = [Message msg]
           \<and> (msg = rangeRequiredError \<or> msg = rangeInvertedError)
           \<and> recommendedRangeLow r = 0 \<and> recommendedRangeHigh r = 0 \<and> recommendedPrice r = 0)"
proof -
  have h: "priceRangeMissingOrInvalid (dollarOffering\<lparr>indicatedPriceRangeHigh := Some 19\<rparr>)"
    by (simp add: priceRangeMissingOrInvalid_def dollarOffering_def)
  show ?thesis
    using h invalid_price_range_refused [OF h] by simp
qed

section \<open>Enterprise value\<close>

subsection \<open>In the pricing-matrix engine and in the engine with the valuation step\<close>

text \<open>
  In every row of the matrix the enterprise value is the market capitalisation plus the debt
  minus the cash after the offering, and the debt of the row is the debt of the input.
\<close>

lemma enterprise_value_of_row:
  assumes "row \<in> set (matrixRows a)"
  shows "enterpriseValueM row = marketCapM row + currentDebtM row - postIPOCashM row
         \<and> currentDebtM row = withDefault (currentDebt a) 0"
proof -
  obtain p where "row = pricingRow a p"
    using assms matrixRows_cases by blast
  then show ?thesis
    by (simp add: enterpriseValueMOf_def currentDebtMOf_def)
qed

text \<open>
  The enterprise value after the offering that the engine with the valuation step reports,
  and the one of each of its three scenarios, follow the same formula.
\<close>

lemma enterprise_value_after_offering:
  assumes "calculateIPOPricingV currentYear a = Some r"
  shows "postIPOEnterpriseValue r = marketCap r + postIPODebt r - postIPOCash r"
  using assms
  by (auto simp: calculateIPOPricingV_def postIPOEnterpriseValueOf_def split: option.splits)

lemma enterprise_value_of_scenario:
  "scenarioEnterpriseValue (createScenario ev a n price primShares)
     = scenarioMarketCap (createScenario ev a n price primShares)
       + postDebt a - postCash a price primShares"
  by (simp add: createScenario_def scenarioEV_def Let_def)

subsection \<open>In the two earlier copies\<close>

text \<open>
  C2 holds in the two engines above and fails in the earlier copies, which have no debt
  input. For the company of the example (100M shares, 10M primary shares, no greenshoe, cash
  of 50, debt of 30) at an offer price of 20, the market capitalisation is 2200 and the cash
  after the offering 250: the pricing-matrix engine reports 2200 + 30 - 250 = 1980, the
  service copy 2200 - 250 = 1950 and the original copy the market capitalisation, 2200. For
  all inputs the service copy computes market capitalisation minus cash, and the original
  copy the market capitalisation.
\<close>

theorem enterprise_value_without_debt:
  "marketCapM (pricingRow shareOffering 20) = 2200
   \<and> postIPOCashM (pricingRow shareOffering 20) = 250
   \<and> currentDebtM (pricingRow shareOffering 20) = 30
   \<and> enterpriseValueM (pricingRow shareOffering 20) = 1980
   \<and> serviceMarketCapM (serviceFdSharesPostIPO 100 10 (serviceActualGreenshoeShares (Some 0) 10 0)) 20
       = 2200
   \<and> servicePostIPOCashM 50 10 (serviceActualGreenshoeShares (Some 0) 10 0) 20 = 250
   \<and> serviceEnterpriseValueM 100 10 (serviceActualGreenshoeShares (Some 0) 10 0) 50 20 = 1950
   \<and> originalMarketCap 100 10 0 20 = 2200
   \<and> originalEnterpriseValue 100 10 0 20 = 2200
   \<and> (\<forall>sharesOutstanding primaryShares greenshoe cash p.
         serviceEnterpriseValueM sharesOutstanding primaryShares greenshoe cash p
           = serviceMarketCapM (serviceFdSharesPostIPO sharesOutstanding primaryShares greenshoe) p
             - servicePostIPOCashM cash primaryShares greenshoe p)
   \<and> (\<forall>sharesOutstanding primaryShares greenshoePct p.
         originalEnterpriseValue sharesOutstanding primaryShares greenshoePct p
           = originalMarketCap sharesOutstanding primaryShares greenshoePct p)"
proof -
  have row: "marketCapM (pricingRow shareOffering 20) = 2200
      \<and> postIPOCashM (pricingRow shareOffering 20) = 250
      \<and> currentDebtM (pricingRow shareOffering 20) = 30
      \<and> enterpriseValueM (pricingRow shareOffering 20) = 1980"
    by (simp add: share_defs useDollarBased_def withDefault_def orElse_def shareOffering_def)
  have service: "serviceMarketCapM (serviceFdSharesPostIPO 100 10 (serviceActualGreenshoeShares (Some 0) 10 0)) 20
        = 2200
      \<and> servicePostIPOCashM 50 10 (serviceActualGreenshoeShares (Some 0) 10 0) 20 = 250
      \<and> serviceEnterpriseValueM 100 10 (serviceActualGreenshoeShares (Some 0) 10 0) 50 20 = 1950"
    by (simp add: serviceEnterpriseValueM_def serviceMarketCapM_def serviceFdSharesPostIPO_def
          servicePostIPOCashM_def serviceActualGreenshoeShares_def orElse_def)
  have original: "originalMarketCap 100 10 0 20 = 2200 \<and> originalEnterpriseValue 100 10 0 20 = 2200"
    by (simp add: originalEnterpriseValue_def originalMarketCap_def)
  show ?thesis
    using row service original
    by (simp add: serviceEnterpriseValueM_def originalEnterpriseValue_def)
qed

section \<open>The terminal value of the discounted cash flow\<close>

text \<open>
  C3, as stated, fails: the function has no refusal at all, and neither DCF branch compares
  the discount rate with the terminal growth rate. For the mature company with a discount
  rate of 10 per cent and a terminal growth rate of 21 per cent the division by
  \<open>wacc - terminalGrowthRate = -0.11\<close> is carried out: the enterprise value is \<open>-1000\<close>, the
  recommended offer price is \<open>-7.84\<close>, and the result has its three pricing scenarios.
\<close>

theorem negative_spread_not_refused:
  "companyType matureCompany = mature
   \<and> wacc matureCompany < terminalGrowthRate matureCompany
   \<and> (\<exists>r. calculateIPOPricingV 2025 matureCompany = Some r
         \<and> enterpriseValue r = - 1000
         \<and> recommendedOfferPrice r = - (196 / 25)
         \<and> length (pricingMatrixV r) = 3)"
proof -
  from calculateIPOPricingV_Some [OF valuation_matureCompany, of 2025]
  obtain r where r: "calculateIPOPricingV 2025 matureCompany = Some r"
    "enterpriseValue r = - 1000" "pricingMatrixV r = scenarios (- 1000) matureCompany"
    "recommendedOfferPrice r = midPrice (- 1000) matureCompany"
    by blast
  have "midPrice (- 1000) matureCompany = - (196 / 25)"
    by (simp add: midPrice_def fairValuePerShareOf_def equityValueOf_def)
  then show ?thesis
    using r by (simp add: scenarios_def)
qed

text \<open>
  C3, amended. In the DCF methodology of a mature or industrial company with at least one
  projected year and a discount rate below the terminal growth rate (and above -100 per
  cent, so that no discount factor is \<open>0\<close>), the function returns
  a full result with three pricing scenarios; its discounted cash flow value is the
  discounted sum of the projected cash flows plus the discounted Gordon-growth terminal
  value, the last cash flow times \<open>1 + terminalGrowthRate\<close> divided by the negative
  \<open>wacc - terminalGrowthRate\<close>, so that a positive terminal cash flow gives a negative
  terminal value. That value is the enterprise value of a mature company, and
  an upper bound of it for an industrial one (which takes the lower of it and the EBITDA
  multiple).
\<close>

theorem gordon_growth_division_unguarded:
  assumes "companyType a = mature \<or> companyType a = industrial"
    and "0 < projectionYears a"
    and "wacc a < terminalGrowthRate a"
    and "- 1 < wacc a"
  shows "\<exists>r dcfEV. calculateIPOPricingV y a = Some r
           \<and> length (pricingMatrixV r) = 3
           \<and> dcfValue a (projectedFCF a) = Some dcfEV
           \<and> dcfEV = discountLoop (wacc a) 0 (projectedFCF a) 0
                      + (last (projectedFCF a) * (1 + terminalGrowthRate a)
                           / (wacc a - terminalGrowthRate a))
                        / (1 + wacc a) ^ projectionYears a
           \<and> (0 < last (projectedFCF a) * (1 + terminalGrowthRate a) \<longrightarrow>
                last (projectedFCF a) * (1 + terminalGrowthRate a)
                  / (wacc a - terminalGrowthRate a) < 0)
           \<and> (companyType a = mature \<longrightarrow> enterpriseValue r = dcfEV)
           \<and> enterpriseValue r \<le> dcfEV"
proof -
  define dcfEV where "dcfEV = discountLoop (wacc a) 0 (projectedFCF a) 0
      + terminalValueOf a (last (projectedFCF a)) / (1 + wacc a) ^ projectionYears a"
  have d: "dcfValue a (projectedFCF a) = Some dcfEV"
    using dcfValue_defined [OF assms(2)] by (simp add: dcfEV_def)
  have "\<exists>ev ws. valuation y a = Some (ev, ws) \<and> ev \<le> dcfEV
          \<and> (companyType a = mature \<longrightarrow> ev = dcfEV)"
  proof (cases "medianOf (positiveMultiples evEbitda (comparables a))")
    case None
    then have "valuation y a = Some (dcfEV, [])"
      using assms(1) d by (cases "companyType a") (simp_all add: valuation_def)
    then show ?thesis by simp
  next
    case (Some medianMultiple)
    show ?thesis
    proof (cases "0 < currentEBITDA a \<and> companyType a = industrial")
      case True
      then have "valuation y a = Some (min dcfEV (currentEBITDA a * medianMultiple), [])"
        using d Some by (simp add: valuation_def)
      then show ?thesis using True by simp
    next
      case False
      then have "valuation y a = Some (dcfEV, [])"
        using assms(1) d Some by (cases "companyType a") (simp_all add: valuation_def)
      then show ?thesis by simp
    qed
  qed
  then obtain ev ws where v: "valuation y a = Some (ev, ws)" and e: "ev \<le> dcfEV"
    and m: "companyType a = mature \<longrightarrow> ev = dcfEV"
    by blast
  from calculateIPOPricingV_Some [OF v] obtain r where
    r: "calculateIPOPricingV y a = Some r" "enterpriseValue r = ev"
       "pricingMatrixV r = scenarios ev a"
    by blast
  have "x / (wacc a - terminalGrowthRate a) < 0" if "0 < x" for x
    using that assms(3) by (simp add: divide_pos_neg)
  then show ?thesis
    using r d e m by (auto simp: scenarios_def dcfEV_def terminalValueOf_def Let_def)
qed


theorem gordon_growth_division_unguarded_witness:
  "(companyType matureCompany = mature \<or> companyType matureCompany = industrial)
   \<and> 0 < projectionYears matureCompany
   \<and> wacc matureCompany < terminalGrowthRate matureCompany
   \<and> - 1 < wacc matureCompany
   \<and> (\<exists>r dcfEV. calculateIPOPricingV 2025 matureCompany = Some r
         \<and> length (pricingMatrixV r) = 3
         \<and> dcfValue matureCompany (projectedFCF matureCompany) = Some dcfEV
         \<and> dcfEV = - 1000
         \<and> enterpriseValue r = dcfEV)"
proof -
  have h: "companyType matureCompany = mature \<or> companyType matureCompany = industrial"
    "0 < projectionYears matureCompany" "wacc matureCompany < terminalGrowthRate matureCompany"
    "- 1 < wacc matureCompany"
    by simp_all
  from gordon_growth_division_unguarded [OF h, of 2025]
  show ?thesis
    using h by (auto simp: projectedFCF_matureCompany dcfValue_matureCompany)
qed

section \<open>The ownership table\<close>



section \<open>The demand lookup\<close>

subsection \<open>In the pricing-matrix engine\<close>

text \<open>
  The sorted order book is descending in the price level, so the first tier at or below the
  candidate price is the highest such tier, and the last tier is the lowest.
\<close>

lemma sortDescending_sorted: "sorted (map (\<lambda>x. - key x) (sortDescending key xs))"
  by (simp add: sortDescending_def)

lemma set_sortDescending [simp]: "set (sortDescending key xs) = set xs"
  by (simp add: sortDescending_def)

lemma find_in_descending:
  fixes f :: "'a \<Rightarrow> real"
  assumes "sorted (map (\<lambda>x. - f x) xs)" and "find (\<lambda>e. f e \<le> p) xs = Some t"
  shows "t \<in> set xs \<and> f t \<le> p \<and> (\<forall>u\<in>set xs. f u \<le> p \<longrightarrow> f u \<le> f t)"
  using assms
proof (induction xs)
  case Nil
  then show ?case by simp
next
  case (Cons x xs)
  show ?case
  proof (cases "f x \<le> p")
    case True
    with Cons.prems have "t = x" by simp
    moreover have "\<forall>u\<in>set xs. f u \<le> f x"
      using Cons.prems(1) by auto
    ultimately show ?thesis using True by auto
  next
    case False
    with Cons.prems have "find (\<lambda>e. f e \<le> p) xs = Some t" "sorted (map (\<lambda>x. - f x) xs)"
      by simp_all
    with Cons.IH have "t \<in> set xs \<and> f t \<le> p \<and> (\<forall>u\<in>set xs. f u \<le> p \<longrightarrow> f u \<le> f t)"
      by blast
    then show ?thesis using False by auto
  qed
qed

lemma last_in_descending:
  fixes f :: "'a \<Rightarrow> real"
  assumes "sorted (map (\<lambda>x. - f x) xs)" and "u \<in> set xs"
  shows "f (last xs) \<le> f u"
  using assms
proof (induction xs)
  case Nil
  then show ?case by simp
next
  case (Cons x xs)
  show ?case
  proof (cases "xs = []")
    case True
    with Cons.prems show ?thesis by simp
  next
    case False
    then have l: "last xs \<in> set xs" by simp
    show ?thesis
    proof (cases "u = x")
      case True
      then show ?thesis using Cons.prems(1) False l by auto
    next
      case False
      then show ?thesis using Cons \<open>xs \<noteq> []\<close> by auto
    qed
  qed
qed

text \<open>
  For a non-empty order book and any candidate price, the oversubscription is the value of a
  tier of the book: when some tier is at or below the candidate, a tier at or below the
  candidate with no tier at or below the candidate above it (for a candidate above every
  tier this is the highest tier); when the candidate is below every tier, a tier with no
  tier below it. No value between or beyond the tiers is made up.
\<close>

lemma order_book_lookup_tier:
  assumes "orderBook a = Some book" and "book \<noteq> []"
  shows "\<exists>t\<in>set book. oversubscriptionOf a p = tierOversubscription t
           \<and> (if \<exists>u\<in>set book. priceLevel u \<le> p
              then priceLevel t \<le> p
                   \<and> (\<forall>u\<in>set book. priceLevel u \<le> p \<longrightarrow> priceLevel u \<le> priceLevel t)
              else (\<forall>u\<in>set book. priceLevel t \<le> priceLevel u))"
proof -
  define s where "s = sortedOrderBook a"
  have s: "s = sortDescending priceLevel book"
    using assms(1) by (simp add: s_def sortedOrderBook_def)
  have set_s: "set s = set book" and sorted_s: "sorted (map (\<lambda>x. - priceLevel x) s)"
    and ne: "s \<noteq> []"
    using assms(2) by (simp_all add: s sortDescending_sorted sortDescending_Nil_iff)
  obtain highest rest where hr: "s = highest # rest"
    using ne by (cases s) auto
  show ?thesis
  proof (cases "find (\<lambda>entry. priceLevel entry \<le> p) s")
    case None
    then have all: "\<forall>u\<in>set book. \<not> priceLevel u \<le> p"
      using set_s by (auto simp: find_None_iff)
    have "oversubscriptionOf a p = tierOversubscription (last s)"
      using None all set_s hr
      by (auto simp: oversubscriptionOf_def orderBookLookup_def s_def [symmetric] Let_def)
    moreover have "last s \<in> set book"
      using ne set_s last_in_set by blast
    moreover have "\<forall>u\<in>set book. priceLevel (last s) \<le> priceLevel u"
      using last_in_descending [OF sorted_s] set_s by blast
    ultimately show ?thesis
      using all by auto
  next
    case (Some t)
    from find_in_descending [OF sorted_s Some]
    have t: "t \<in> set book" "priceLevel t \<le> p"
      "\<forall>u\<in>set book. priceLevel u \<le> p \<longrightarrow> priceLevel u \<le> priceLevel t"
      using set_s by auto
    have "oversubscriptionOf a p = tierOversubscription t"
      using Some hr by (simp add: oversubscriptionOf_def orderBookLookup_def s_def [symmetric])
    then show ?thesis
      using t by auto
  qed
qed

text \<open>With the tiers 30 (5 times) and 25 (10 times), an offer price of 27 matches the tier 25 and gives 10.\<close>

lemma order_book_lookup_scenario:
  assumes "orderBook a = Some exampleBook"
  shows "oversubscriptionOf a 27 = 10 \<and> orderBookTierOf a 27 = TierAtOrAbove 25"
  by (simp add: oversubscriptionOf_def orderBookTierOf_def sortedOrderBook_exampleBook [OF assms]
        orderBookLookup_def exampleBook_def)

subsection \<open>In the service copy\<close>

text \<open>
  C5 holds in the pricing-matrix engine, as the lemmas above say, and fails in the copy of
  \<^verbatim>\<open>ipoPricingService.ts\<close>. With the tiers 30 (5 times) and 25 (10 times) and a filing
  range of 24 to 28, the grid of the service copy runs from 21 to 33; at the price 22, below
  every tier, the oversubscription is 12, the lowest tier's 10 scaled by the distance below
  it and rounded, where the claim has 10. At 27 the service copy agrees with the claim. When
  the tier at 30 is exactly once subscribed, the price 31 finds the value 1, which the
  service copy takes for "no tier found": the result is 7, where the claim has 1.
\<close>

theorem service_lookup_extrapolates:
  "servicePriceRange (Some 24) (Some 28) (Some exampleBook) = (21, 33)
   \<and> 22 \<in> set (servicePricePoints (Some 24) (Some 28) (Some exampleBook))
   \<and> list_all (\<lambda>t. 22 < priceLevel t) exampleBook
   \<and> serviceOversubscription (sortDescending priceLevel exampleBook) 22 = 12
   \<and> serviceOversubscription (sortDescending priceLevel exampleBook) 27 = 10
   \<and> serviceOversubscription (sortDescending priceLevel unitTierBook) 31 = 7"
proof -
  have r: "servicePriceRange (Some 24) (Some 28) (Some exampleBook) = (21, 33)"
    by (simp add: servicePriceRange_def orElse_def exampleBook_def)
  have "21 + real 1 \<in> set (pricePointsFrom 21 33)"
    by (rule pricePointsFrom_member) simp_all
  then have m: "22 \<in> set (servicePricePoints (Some 24) (Some 28) (Some exampleBook))"
    by (simp add: servicePricePoints_def r)
  have a: "serviceOversubscription (sortDescending priceLevel exampleBook) 22 = 12"
    by (simp add: serviceOversubscription_def sortDescending_def exampleBook_def Math_round_def)
  have b: "serviceOversubscription (sortDescending priceLevel exampleBook) 27 = 10"
    by (simp add: serviceOversubscription_def sortDescending_def exampleBook_def)
  have c: "serviceOversubscription (sortDescending priceLevel unitTierBook) 31 = 7"
    by (simp add: serviceOversubscription_def sortDescending_def unitTierBook_def Math_round_def)
  show ?thesis
    using r m a b c by (simp add: exampleBook_def)
qed

section \<open>Investor drop-off and effective oversubscription\<close>

text \<open>
  C6, as stated, fails: the test of the source is \<^verbatim>\<open>investor.maxPrice && ...\<close>, so an
  investor whose maximum acceptable price is \<open>0\<close> is kept at every candidate price, although
  that maximum is below the price, and the size of the order is not counted as lost demand.
\<close>

theorem zero_maximum_price_not_excluded:
  "pricingRow zeroCapOrder 20 \<in> set (matrixRows zeroCapOrder)
   \<and> notableOrders zeroCapOrder
       = Some [\<lparr>investorName = ''Fund A'', indicatedSizeM = 50, maxPrice = Some 0\<rparr>]
   \<and> (0::real) < offerPrice (pricingRow zeroCapOrder 20)
   \<and> investorsDropping (pricingRow zeroCapOrder 20) = []
   \<and> demandLostM (pricingRow zeroCapOrder 20) = 0"
proof -
  have m: "pricingRow zeroCapOrder 20 \<in> set (matrixRows zeroCapOrder)"
    using matrixRows_19_21 [of zeroCapOrder] by (simp add: zeroCapOrder_def)
  show ?thesis
    using m
    by (simp add: zeroCapOrder_def investorsDroppingOf_def demandLostMOf_def withDefault_def
          dropsAt_def)
qed

text \<open>
  C6, amended. In every row of the matrix the excluded investors are those with a stated,
  non-zero maximum acceptable price below the offer price of the row, in the order of the
  input, and the lost demand is the sum of their indicated sizes. When the lost demand and
  the gross proceeds are both positive (and the raw oversubscription is not \<open>0\<close>), the
  effective oversubscription is raw \<open>\<times>\<close> (1 - lost \<open>\<div>\<close> (gross \<open>\<times>\<close> raw)), which is
  raw - lost \<open>\<div>\<close> gross: no floor is applied, and the value is negative once the lost
  demand exceeds gross \<open>\<times>\<close> raw (the witness has -2.5). When the lost demand is not positive
  or the gross proceeds are not positive, the effective oversubscription is the raw one.
  Nothing is stated for a raw oversubscription of \<open>0\<close> with positive lost demand and positive
  gross proceeds, where the source divides by \<open>0\<close>.
\<close>

theorem investor_drop_off:
  assumes "row \<in> set (matrixRows a)"
  shows "investorsDropping row
           = map investorName
               (filter (\<lambda>i. case maxPrice i of None \<Rightarrow> False
                          | Some m \<Rightarrow> m \<noteq> 0 \<and> m < offerPrice row)
                  (withDefault (notableOrders a) []))
       \<and> demandLostM row
           = sum_list (map indicatedSizeM
               (filter (\<lambda>i. case maxPrice i of None \<Rightarrow> False
                          | Some m \<Rightarrow> m \<noteq> 0 \<and> m < offerPrice row)
                  (withDefault (notableOrders a) [])))
       \<and> (0 < demandLostM row \<and> 0 < grossProceedsM row \<and> oversubscription row \<noteq> 0 \<longrightarrow>
            effectiveOversubscription row
              = oversubscription row
                  * (1 - demandLostM row / (grossProceedsM row * oversubscription row)))
       \<and> (0 < demandLostM row \<and> 0 < grossProceedsM row \<and> oversubscription row \<noteq> 0 \<longrightarrow>
            effectiveOversubscription row
              = oversubscription row - demandLostM row / grossProceedsM row)
       \<and> (\<not> (0 < demandLostM row \<and> 0 < grossProceedsM row) \<longrightarrow>
            effectiveOversubscription row = oversubscription row)"
proof -
  obtain p where row: "row = pricingRow a p"
    using assms matrixRows_cases by blast
  have f: "filter (\<lambda>i. case maxPrice i of None \<Rightarrow> False
                            | Some m \<Rightarrow> m \<noteq> 0 \<and> m < offerPrice row) xs
      = filter (dropsAt p) xs" for xs
    by (rule filter_cong [OF refl]) (simp add: dropsAt_def row split: option.splits)
  show ?thesis
    unfolding f
    by (simp add: row investorsDroppingOf_def demandLostMOf_def dropOffLoop_eq
          effectiveOversubscriptionOf_def Let_def right_diff_distrib)
qed

theorem investor_drop_off_witness:
  "pricingRow largeDropOff 20 \<in> set (matrixRows largeDropOff)
   \<and> investorsDropping (pricingRow largeDropOff 20) = [''Fund B'']
   \<and> demandLostM (pricingRow largeDropOff 20) = 2500
   \<and> grossProceedsM (pricingRow largeDropOff 20) = 200
   \<and> oversubscription (pricingRow largeDropOff 20) = 10
   \<and> effectiveOversubscription (pricingRow largeDropOff 20) = - (5 / 2)"
proof -
  have m: "pricingRow largeDropOff 20 \<in> set (matrixRows largeDropOff)"
    using matrixRows_19_21 [of largeDropOff] by (simp add: largeDropOff_def)
  have g: "grossProceedsM (pricingRow largeDropOff 20) = 200"
    by (simp add: gross_of_dollar_raise largeDropOff_def)
  have os: "oversubscription (pricingRow largeDropOff 20) = 10"
    by (simp add: oversubscription_below_exampleBook largeDropOff_def)
  have n: "withDefault (notableOrders largeDropOff) []
      = [\<lparr>investorName = ''Fund B'', indicatedSizeM = 2500, maxPrice = Some (39 / 2)\<rparr>,
         \<lparr>investorName = ''Fund C'', indicatedSizeM = 40, maxPrice = None\<rparr>]"
    by (simp add: largeDropOff_def withDefault_def)
  from investor_drop_off [OF m]
  have "investorsDropping (pricingRow largeDropOff 20) = [''Fund B'']
        \<and> demandLostM (pricingRow largeDropOff 20) = 2500"
    unfolding n by simp
  moreover from this investor_drop_off [OF m] g os
  have "effectiveOversubscription (pricingRow largeDropOff 20) = - (5 / 2)"
    by simp
  ultimately show ?thesis
    using m g os by simp
qed

section \<open>Shares of a dollar-denominated raise\<close>

text \<open>
  C7. When the primary raise is given in dollars (and is positive), the primary share count
  of every row of the matrix is the dollar amount divided by the offer price of that row,
  which is positive; with no greenshoe (and a count of shares outstanding before the offering
  that is not negative) the dilution of the row is that share count over the sum of the
  shares outstanding before the offering and that share count. The witness is
  the scenario of the specification: 100M shares before the offering, a raise of $200M, an
  offer price of $20 and no greenshoe give 10M primary shares and a dilution of
  \<open>10 / (100 + 10)\<close>, which is 9.09 per cent.
\<close>

theorem dollar_raise_primary_shares:
  assumes "primaryDollarRaiseM a = Some dollars" and "dollars > 0"
    and "row \<in> set (matrixRows a)"
  shows "offerPrice row > 0
         \<and> sharesSoldPrimary row = dollars / offerPrice row
         \<and> (orElse (greenshoePercent a) 0 = 0 \<and> 0 \<le> sharesOutstandingPreIPO a \<longrightarrow>
              dilutionPercent row
                = sharesSoldPrimary row / (sharesOutstandingPreIPO a + sharesSoldPrimary row))"
proof -
  obtain p where "row = pricingRow a p" "0 < p"
    using assms(3) matrixRows_cases by blast
  then show ?thesis
    using assms(1,2)
    by (simp add: pricingRow_def share_defs useDollarBased_def withDefault_def)
qed

theorem dollar_raise_primary_shares_witness:
  "primaryDollarRaiseM dollarOffering = Some 200 \<and> (200::real) > 0
   \<and> sharesOutstandingPreIPO dollarOffering = 100
   \<and> orElse (greenshoePercent dollarOffering) 0 = 0
   \<and> pricingRow dollarOffering 20 \<in> set (matrixRows dollarOffering)
   \<and> offerPrice (pricingRow dollarOffering 20) = 20
   \<and> sharesSoldPrimary (pricingRow dollarOffering 20) = 10
   \<and> dilutionPercent (pricingRow dollarOffering 20) = 10 / (100 + 10)
   \<and> \<bar>dilutionPercent (pricingRow dollarOffering 20) - 9.09 / 100\<bar> < 1 / 100000"
proof -
  have m: "pricingRow dollarOffering 20 \<in> set (matrixRows dollarOffering)"
    using matrixRows_valid [of dollarOffering 19 21]
    by (simp add: dollarOffering_def pricePoints_19_21)
  have d: "primaryDollarRaiseM dollarOffering = Some 200"
    by (simp add: dollarOffering_def)
  have g: "orElse (greenshoePercent dollarOffering) 0 = 0"
    by (simp add: dollarOffering_def orElse_def)
  have p: "offerPrice (pricingRow dollarOffering 20) = 20"
    by (simp add: pricingRow_def)
  have s: "sharesOutstandingPreIPO dollarOffering = 100"
    by (simp add: dollarOffering_def)
  from dollar_raise_primary_shares [OF d _ m] g p s
  have "sharesSoldPrimary (pricingRow dollarOffering 20) = 10
        \<and> dilutionPercent (pricingRow dollarOffering 20) = 10 / (100 + 10)"
    by simp
  with m d g p s show ?thesis by simp
qed

section \<open>The book-quality term of the first-day return\<close>

text \<open>
  C8, as stated, fails. The term is computed only inside \<^verbatim>\<open>if (hasUserProvidedPopData)\<close>
  and only for a positive effective oversubscription. With an order book and no sector
  benchmark, the row at 20 has an effective oversubscription of 10 and a term of \<open>0\<close>, not
  \<open>ln 10\<close>; with a benchmark and a drop-off that takes the effective oversubscription to
  -2.5, the term is \<open>0\<close> as well.
\<close>

theorem book_quality_term_zero_despite_book:
  "pricingRow noBenchmark 20 \<in> set (matrixRows noBenchmark)
   \<and> hasExplicitOrderBook noBenchmark
   \<and> effectiveOversubscription (pricingRow noBenchmark 20) = 10
   \<and> bookQualityAdjustment (pricingRow noBenchmark 20) = 0
   \<and> bookQualityAdjustment (pricingRow noBenchmark 20)
       \<noteq> ln (effectiveOversubscription (pricingRow noBenchmark 20))
   \<and> pricingRow largeDropOff 20 \<in> set (matrixRows largeDropOff)
   \<and> hasExplicitOrderBook largeDropOff \<and> hasUserProvidedPopData largeDropOff
   \<and> effectiveOversubscription (pricingRow largeDropOff 20) = - (5 / 2)
   \<and> bookQualityAdjustment (pricingRow largeDropOff 20) = 0"
proof -
  have n: "pricingRow noBenchmark 20 \<in> set (matrixRows noBenchmark)"
    using matrixRows_19_21 [of noBenchmark] by (simp add: noBenchmark_def)
  have l: "pricingRow largeDropOff 20 \<in> set (matrixRows largeDropOff)"
    using matrixRows_19_21 [of largeDropOff] by (simp add: largeDropOff_def)
  have b: "hasExplicitOrderBook noBenchmark" "hasExplicitOrderBook largeDropOff"
    by (simp_all add: hasExplicitOrderBook_iff noBenchmark_def largeDropOff_def exampleBook_def)
  have h: "\<not> hasUserProvidedPopData noBenchmark" "hasUserProvidedPopData largeDropOff"
    by (simp_all add: hasUserProvidedPopData_def noBenchmark_def largeDropOff_def)
  have en: "effectiveOversubscriptionOf noBenchmark 20 = 10"
    by (simp add: eff_without_orders oversubscription_below_exampleBook noBenchmark_def)
  have el: "effectiveOversubscriptionOf largeDropOff 20 = - (5 / 2)"
    by (simp add: effectiveOversubscriptionOf_def demandLostMOf_def withDefault_def dropsAt_def
          gross_of_dollar_raise oversubscription_below_exampleBook largeDropOff_def)
  have ln10: "ln (10::real) \<noteq> 0"
    by simp
  show ?thesis
    using n l b h el en ln10 by (simp add: bookQualityAdjustmentOf_def)
qed

text \<open>
  C8, amended. In every row of the matrix: when a sector benchmark and an order book were
  supplied and the effective oversubscription is positive and not 1, the book-quality term
  is its natural logarithm; the term is \<open>0\<close> when no order book was supplied, when no sector
  benchmark was supplied, and when the effective oversubscription is 1 or not positive.
\<close>

theorem book_quality_term:
  assumes "row \<in> set (matrixRows a)"
  shows "(hasUserProvidedPopData a \<and> hasExplicitOrderBook a
            \<and> 0 < effectiveOversubscription row \<and> effectiveOversubscription row \<noteq> 1 \<longrightarrow>
            bookQualityAdjustment row = ln (effectiveOversubscription row))
       \<and> (\<not> hasExplicitOrderBook a \<longrightarrow> bookQualityAdjustment row = 0)
       \<and> (\<not> hasUserProvidedPopData a \<longrightarrow> bookQualityAdjustment row = 0)
       \<and> (effectiveOversubscription row \<le> 0 \<or> effectiveOversubscription row = 1 \<longrightarrow>
            bookQualityAdjustment row = 0)"
proof -
  obtain p where row: "row = pricingRow a p"
    using assms matrixRows_cases by blast
  show ?thesis
    by (auto simp: row bookQualityAdjustmentOf_def)
qed

theorem book_quality_term_witness:
  "pricingRow dollarOffering 20 \<in> set (matrixRows dollarOffering)
   \<and> hasUserProvidedPopData dollarOffering \<and> hasExplicitOrderBook dollarOffering
   \<and> effectiveOversubscription (pricingRow dollarOffering 20) = 10
   \<and> bookQualityAdjustment (pricingRow dollarOffering 20) = ln 10
   \<and> pricingRow noBenchmark 20 \<in> set (matrixRows noBenchmark)
   \<and> \<not> hasUserProvidedPopData noBenchmark
   \<and> bookQualityAdjustment (pricingRow noBenchmark 20) = 0"
proof -
  have m: "pricingRow dollarOffering 20 \<in> set (matrixRows dollarOffering)"
    using matrixRows_19_21 [of dollarOffering] by simp
  have n: "pricingRow noBenchmark 20 \<in> set (matrixRows noBenchmark)"
    using matrixRows_19_21 [of noBenchmark] by (simp add: noBenchmark_def)
  have h: "hasUserProvidedPopData dollarOffering" "\<not> hasUserProvidedPopData noBenchmark"
    by (simp_all add: hasUserProvidedPopData_def noBenchmark_def)
  have b: "hasExplicitOrderBook dollarOffering"
    by (simp add: hasExplicitOrderBook_iff exampleBook_def)
  have e: "effectiveOversubscription (pricingRow dollarOffering 20) = 10"
    by (simp add: eff_without_orders oversubscription_below_exampleBook)
  show ?thesis
    using book_quality_term [OF m] book_quality_term [OF n] m n h b e by simp
qed

section \<open>Gross proceeds across the rows of a matrix\<close>



section \<open>Debt repayment from the proceeds\<close>


end
